theory Spec2Isabelle
  imports Complex_Main
begin

section \<open>Provider payloads: JSON documents and the Python operations on them\<close>

text \<open>
  The provider client returns decoded JSON. A document is \<open>None\<close>, a bool, an int, a
  float, a string, a list or a dict. A float is modelled by the rational number it
  denotes (NaN and the infinities are left out); comparisons between ints and
  floats are exact in Python, so the order on \<open>rat\<close> is the program's order.
  A dict is an association list with distinct keys, read with \<open>map_of\<close>.
\<close>

datatype json =
    JNull
  | JBool bool
  | JInt int
  | JFloat rat
  | JStr string
  | JList "json list"
  | JDict "(string \<times> json) list"

text \<open>The exceptions the modelled code can meet.\<close>

datatype py_exn =
    AttributeError
  | TypeError
  | IntegrityError
  | Upstream string

text \<open>Truth value of a document (\<open>if x\<close>, \<open>x or y\<close>, \<open>not x\<close>).\<close>

fun truthy :: "json \<Rightarrow> bool" where
  "truthy JNull = False"
| "truthy (JBool b) = b"
| "truthy (JInt i) = (i \<noteq> 0)"
| "truthy (JFloat r) = (r \<noteq> 0)"
| "truthy (JStr s) = (s \<noteq> [])"
| "truthy (JList xs) = (xs \<noteq> [])"
| "truthy (JDict kvs) = (kvs \<noteq> [])"

definition py_or :: "json \<Rightarrow> json \<Rightarrow> json" where
  "py_or a b = (if truthy a then a else b)"

text \<open>\<open>isinstance(x, dict)\<close>, \<open>isinstance(x, list)\<close>, \<open>isinstance(x, (int, float))\<close>.
  In Python \<open>bool\<close> is a subclass of \<open>int\<close>.\<close>

fun is_dict :: "json \<Rightarrow> bool" where
  "is_dict (JDict kvs) = True"
| "is_dict j = False"

fun is_list :: "json \<Rightarrow> bool" where
  "is_list (JList xs) = True"
| "is_list j = False"

fun is_number :: "json \<Rightarrow> bool" where
  "is_number (JBool b) = True"
| "is_number (JInt i) = True"
| "is_number (JFloat r) = True"
| "is_number j = False"

fun num_val :: "json \<Rightarrow> rat" where
  "num_val (JBool b) = (if b then 1 else 0)"
| "num_val (JInt i) = of_int i"
| "num_val (JFloat r) = r"
| "num_val j = 0"

text \<open>\<open>d.get(k, default)\<close>: an \<open>AttributeError\<close> when \<open>d\<close> is not a dict
  (\<open>None\<close>, numbers, strings and lists have no \<open>get\<close>).\<close>

fun py_get :: "json \<Rightarrow> string \<Rightarrow> json \<Rightarrow> py_exn + json" where
  "py_get (JDict kvs) k dflt = Inr (case map_of kvs k of None \<Rightarrow> dflt | Some v \<Rightarrow> v)"
| "py_get j k dflt = Inl AttributeError"

text \<open>\<open>d.get(k)\<close> on a value already known to be a dict.\<close>

fun dict_get :: "json \<Rightarrow> string \<Rightarrow> json" where
  "dict_get (JDict kvs) k = (case map_of kvs k of None \<Rightarrow> JNull | Some v \<Rightarrow> v)"
| "dict_get j k = JNull"

text \<open>\<open>for v in x\<close>: a list yields its elements, a string its characters, a dict its
  keys; anything else is not iterable (\<open>TypeError\<close>).\<close>

fun py_iter :: "json \<Rightarrow> py_exn + json list" where
  "py_iter (JList xs) = Inr xs"
| "py_iter (JStr s) = Inr (map (\<lambda>c. JStr [c]) s)"
| "py_iter (JDict kvs) = Inr (map (\<lambda>kv. JStr (fst kv)) kvs)"
| "py_iter j = Inl TypeError"

text \<open>\<open>round(x, 2)\<close> and \<open>round(x)\<close>: Python rounds the exact value of the float to the
  nearest multiple of 1/100 (of 1), ties to even. The result, a float again in
  the program, is the rational it denotes here.\<close>

definition round_half_even :: "rat \<Rightarrow> int" where
  "round_half_even x =
     (let f = \<lfloor>x\<rfloor>; d = x - of_int f
      in if d < 1 / 2 then f else if 1 / 2 < d then f + 1 else if even f then f else f + 1)"

definition round2 :: "rat \<Rightarrow> rat" where
  "round2 x = of_int (round_half_even (x * 100)) / 100"

section \<open>Stress histogram (\<open>get_stress\<close>)\<close>

text \<open>The locals of the loop over \<open>stressValuesArray\<close>: the four buckets of
  \<open>stress_levels\<close>, \<open>total_stress_minutes\<close>, \<open>stress_sum\<close> and \<open>max_stress\<close>.\<close>

record stress_acc =
  rest :: int
  low :: int
  medium :: int
  high :: int
  total_stress_minutes :: int
  stress_sum :: rat
  max_stress :: rat

definition stress_init :: stress_acc where
  "stress_init = \<lparr>rest = 0, low = 0, medium = 0, high = 0,
     total_stress_minutes = 0, stress_sum = 0, max_stress = 0\<rparr>"

definition duration_minutes :: int where
  "duration_minutes = 3"

text \<open>\<open>stress = value[1] if isinstance(value[1], (int, float)) else 0\<close>, for an entry that
  is a list of at least two elements.\<close>

definition stress_of :: "json list \<Rightarrow> rat" where
  "stress_of e = (if is_number (e ! 1) then num_val (e ! 1) else 0)"

text \<open>The \<open>if\<close>/\<open>elif\<close> chain that picks the bucket.\<close>

definition add_bucket :: "rat \<Rightarrow> stress_acc \<Rightarrow> stress_acc" where
  "add_bucket stress a =
     (if 0 \<le> stress \<and> stress \<le> 25 then a\<lparr>rest := rest a + duration_minutes\<rparr>
      else if 26 \<le> stress \<and> stress \<le> 50 then a\<lparr>low := low a + duration_minutes\<rparr>
      else if 51 \<le> stress \<and> stress \<le> 75 then a\<lparr>medium := medium a + duration_minutes\<rparr>
      else if 75 < stress then a\<lparr>high := high a + duration_minutes\<rparr>
      else a)"

definition add_monitored :: "rat \<Rightarrow> stress_acc \<Rightarrow> stress_acc" where
  "add_monitored stress a =
     (if 0 < stress
      then a\<lparr>total_stress_minutes := total_stress_minutes a + duration_minutes,
             stress_sum := stress_sum a + stress * of_int duration_minutes,
             max_stress := max (max_stress a) stress\<rparr>
      else a)"

text \<open>One iteration of \<open>for value in stress_values\<close>.\<close>

fun stress_step :: "json \<Rightarrow> stress_acc \<Rightarrow> stress_acc" where
  "stress_step (JList e) a =
     (if 2 \<le> length e then add_monitored (stress_of e) (add_bucket (stress_of e) a) else a)"
| "stress_step v a = a"

definition stress_loop :: "json list \<Rightarrow> stress_acc" where
  "stress_loop samples = fold stress_step samples stress_init"

text \<open>The entries the loop processes (\<open>isinstance(value, list) and len(value) >= 2\<close>)
  and their levels, in order.\<close>

fun well_formed :: "json \<Rightarrow> bool" where
  "well_formed (JList e) = (2 \<le> length e)"
| "well_formed v = False"

fun level_of :: "json \<Rightarrow> rat" where
  "level_of (JList e) = stress_of e"
| "level_of v = 0"

definition levels :: "json list \<Rightarrow> rat list" where
  "levels samples = map level_of (filter well_formed samples)"

text \<open>Number of levels that satisfy a condition.\<close>

definition count_levels :: "(rat \<Rightarrow> bool) \<Rightarrow> json list \<Rightarrow> int" where
  "count_levels P samples = int (length (filter P (levels samples)))"

text \<open>The statistics part of the response (\<open>stress_distribution\<close>,
  \<open>stress_statistics\<close>, \<open>hourly_stress\<close>); the database row stores the same four
  bucket totals, the average and the maximum.\<close>

record stress_response =
  rest_minutes :: int
  low_stress_minutes :: int
  medium_stress_minutes :: int
  high_stress_minutes :: int
  average_stress :: rat
  stat_max_stress :: rat
  stat_total_stress_minutes :: int
  hourly_stress :: json

text \<open>\<open>stress_data\<close> from the raw answer: the first element of a list, \<open>{}\<close> for an
  empty list or for anything that is neither a list nor a dict.\<close>

fun stress_shape :: "json \<Rightarrow> json" where
  "stress_shape (JList []) = JDict []"
| "stress_shape (JList (x # xs)) = x"
| "stress_shape (JDict kvs) = JDict kvs"
| "stress_shape j = JDict []"

text \<open>\<open>stress_sum / total_stress_minutes if total_stress_minutes > 0 else 0\<close>.\<close>

definition computed_average :: "stress_acc \<Rightarrow> rat" where
  "computed_average a =
     (if 0 < total_stress_minutes a then stress_sum a / of_int (total_stress_minutes a) else 0)"

text \<open>The body of \<open>get_stress\<close> between the fetch and the database write. The
  comparison \<open>max_stress_from_api > max_stress\<close> and \<open>round(average_stress, 2)\<close> raise
  \<open>TypeError\<close> on a value that is not a number.\<close>

definition stress_stats :: "json \<Rightarrow> py_exn + stress_response" where
  "stress_stats stress_data_raw =
     (let stress_data = stress_shape stress_data_raw in
      case py_get stress_data ''stressValuesArray'' (JList []) of
        Inl e \<Rightarrow> Inl e
      | Inr stress_values \<Rightarrow>
          (case py_iter stress_values of
             Inl e \<Rightarrow> Inl e
           | Inr samples \<Rightarrow>
               (let a = stress_loop samples;
                    avg_stress_from_api = dict_get stress_data ''avgStressLevel'';
                    max_stress_from_api = dict_get stress_data ''maxStressLevel''
                in if max_stress_from_api \<noteq> JNull \<and> \<not> is_number max_stress_from_api
                   then Inl TypeError
                   else if avg_stress_from_api \<noteq> JNull \<and> \<not> is_number avg_stress_from_api
                   then Inl TypeError
                   else Inr \<lparr>rest_minutes = rest a,
                          low_stress_minutes = low a,
                          medium_stress_minutes = medium a,
                          high_stress_minutes = high a,
                          average_stress =
                            round2 (if avg_stress_from_api \<noteq> JNull
                                    then num_val avg_stress_from_api
                                    else computed_average a),
                          stat_max_stress =
                            (if max_stress_from_api \<noteq> JNull
                                \<and> max_stress a < num_val max_stress_from_api
                             then num_val max_stress_from_api else max_stress a),
                          stat_total_stress_minutes = total_stress_minutes a,
                          hourly_stress = stress_values\<rparr>)))"

text \<open>The samples a \<open>stressValuesArray\<close> value yields when iterated (none when it is
  not iterable), and the concrete payloads used below.\<close>

definition samples_of :: "json \<Rightarrow> json list" where
  "samples_of stress_values =
     (case py_iter stress_values of Inl e \<Rightarrow> [] | Inr samples \<Rightarrow> samples)"

definition level_zero_day :: json where
  "level_zero_day =
     JDict [(''stressValuesArray'', JList [JList [JInt 1700000000000, JInt 0]])]"

definition fractional_level_samples :: "json list" where
  "fractional_level_samples = [JList [JInt 1700000000000, JFloat (51 / 2)]]"

definition null_level_day :: json where
  "null_level_day =
     JDict [(''stressValuesArray'', JList [JList [JInt 1700000000000, JNull]])]"

definition four_level_samples :: "json list" where
  "four_level_samples =
     [JList [JInt 0, JInt 10], JList [JInt 180000, JInt 40],
      JList [JInt 360000, JInt 60], JList [JInt 540000, JInt 90],
      JList [JInt 720000, JInt (- 1)]]"

definition malformed_day :: json where
  "malformed_day =
     JDict [(''stressValuesArray'', JList [JNull, JInt 7, JStr ''x'', JList [JInt 1700000000000]])]"

subsection \<open>What one iteration and the whole loop add to each counter\<close>

lemma rest_step:
  "rest (stress_step v a) =
     rest a + 3 * (if well_formed v \<and> 0 \<le> level_of v \<and> level_of v \<le> 25 then 1 else 0)"
  by (cases v) (auto simp: add_bucket_def add_monitored_def duration_minutes_def)

lemma low_step:
  "low (stress_step v a) =
     low a + 3 * (if well_formed v \<and> 26 \<le> level_of v \<and> level_of v \<le> 50 then 1 else 0)"
  by (cases v) (auto simp: add_bucket_def add_monitored_def duration_minutes_def)

lemma medium_step:
  "medium (stress_step v a) =
     medium a + 3 * (if well_formed v \<and> 51 \<le> level_of v \<and> level_of v \<le> 75 then 1 else 0)"
  by (cases v) (auto simp: add_bucket_def add_monitored_def duration_minutes_def)

lemma high_step:
  "high (stress_step v a) =
     high a + 3 * (if well_formed v \<and> 75 < level_of v then 1 else 0)"
  by (cases v) (auto simp: add_bucket_def add_monitored_def duration_minutes_def)

lemma total_step:
  "total_stress_minutes (stress_step v a) =
     total_stress_minutes a + 3 * (if well_formed v \<and> 0 < level_of v then 1 else 0)"
  by (cases v) (auto simp: add_bucket_def add_monitored_def duration_minutes_def)

lemma rest_fold:
  "rest (fold stress_step vs a) = rest a + 3 * count_levels (\<lambda>l. 0 \<le> l \<and> l \<le> 25) vs"
  by (induction vs arbitrary: a) (simp_all add: count_levels_def levels_def rest_step)

lemma low_fold:
  "low (fold stress_step vs a) = low a + 3 * count_levels (\<lambda>l. 26 \<le> l \<and> l \<le> 50) vs"
  by (induction vs arbitrary: a) (simp_all add: count_levels_def levels_def low_step)

lemma medium_fold:
  "medium (fold stress_step vs a) =
     medium a + 3 * count_levels (\<lambda>l. 51 \<le> l \<and> l \<le> 75) vs"
  by (induction vs arbitrary: a) (simp_all add: count_levels_def levels_def medium_step)

lemma high_fold:
  "high (fold stress_step vs a) = high a + 3 * count_levels (\<lambda>l. 75 < l) vs"
  by (induction vs arbitrary: a) (simp_all add: count_levels_def levels_def high_step)

lemma total_fold:
  "total_stress_minutes (fold stress_step vs a) =
     total_stress_minutes a + 3 * count_levels (\<lambda>l. 0 < l) vs"
  by (induction vs arbitrary: a) (simp_all add: count_levels_def levels_def total_step)

lemma count_levels_nonneg: "0 \<le> count_levels P vs"
  by (simp add: count_levels_def)

lemma active_le_monitored_list:
  fixes ls :: "rat list"
  shows "int (length (filter (\<lambda>l. 26 \<le> l \<and> l \<le> 50) ls))
       + int (length (filter (\<lambda>l. 51 \<le> l \<and> l \<le> 75) ls))
       + int (length (filter (\<lambda>l. 75 < l) ls)) \<le> int (length (filter (\<lambda>l. 0 < l) ls))"
  by (induction ls) auto

lemma buckets_le_monitored_zero_list:
  fixes ls :: "rat list"
  shows "int (length (filter (\<lambda>l. 0 \<le> l \<and> l \<le> 25) ls))
       + int (length (filter (\<lambda>l. 26 \<le> l \<and> l \<le> 50) ls))
       + int (length (filter (\<lambda>l. 51 \<le> l \<and> l \<le> 75) ls))
       + int (length (filter (\<lambda>l. 75 < l) ls))
       \<le> int (length (filter (\<lambda>l. 0 < l) ls)) + int (length (filter (\<lambda>l. l = 0) ls))"
  by (induction ls) auto

lemma int_level_gap:
  fixes l :: rat
  assumes "l \<in> \<int>"
  shows "(25 < l) = (26 \<le> l)" and "(50 < l) = (51 \<le> l)" and "(75 < l) = (76 \<le> l)"
proof -
  from assms obtain n :: int where l: "l = of_int n"
    by (auto elim: Ints_cases)
  show "(25 < l) = (26 \<le> l)" unfolding l by auto
  show "(50 < l) = (51 \<le> l)" unfolding l by auto
  show "(75 < l) = (76 \<le> l)" unfolding l by auto
qed

lemma int_buckets_partition_list:
  fixes ls :: "rat list"
  assumes "\<forall>l \<in> set ls. l \<in> \<int>"
  shows "int (length (filter (\<lambda>l. 0 \<le> l \<and> l \<le> 25) ls))
       + int (length (filter (\<lambda>l. 26 \<le> l \<and> l \<le> 50) ls))
       + int (length (filter (\<lambda>l. 51 \<le> l \<and> l \<le> 75) ls))
       + int (length (filter (\<lambda>l. 76 \<le> l) ls))
       = int (length (filter (\<lambda>l. 0 \<le> l) ls))"
  using assms
proof (induction ls)
  case Nil
  show ?case by simp
next
  case (Cons l ls)
  then have l: "l \<in> \<int>" and rest: "\<forall>l \<in> set ls. l \<in> \<int>"
    by simp_all
  note gaps = int_level_gap [OF l]
  have one: "(if 0 \<le> l \<and> l \<le> 25 then 1 else 0) + (if 26 \<le> l \<and> l \<le> 50 then 1 else 0)
      + (if 51 \<le> l \<and> l \<le> 75 then 1 else 0) + (if 76 \<le> l then 1 else 0)
      = (if 0 \<le> l then 1 else (0::int))"
    using gaps by (auto simp: not_le)
  from Cons.IH [OF rest] one show ?case
    by (simp split: if_splits)
qed

lemma buckets_partition_list:
  fixes ls :: "rat list"
  shows "int (length (filter (\<lambda>l. 0 \<le> l \<and> l \<le> 25) ls))
       + int (length (filter (\<lambda>l. 26 \<le> l \<and> l \<le> 50) ls))
       + int (length (filter (\<lambda>l. 51 \<le> l \<and> l \<le> 75) ls))
       + int (length (filter (\<lambda>l. 75 < l) ls))
       = int (length (filter (\<lambda>l. 0 \<le> l \<and> \<not> (25 < l \<and> l < 26) \<and> \<not> (50 < l \<and> l < 51)) ls))"
  by (induction ls) auto

lemma high_int_list:
  fixes ls :: "rat list"
  assumes "\<forall>l \<in> set ls. l \<in> \<int>"
  shows "filter (\<lambda>l. 75 < l) ls = filter (\<lambda>l. 76 \<le> l) ls"
  using assms by (intro filter_cong) (auto simp: int_level_gap)

lemma stress_stats_fields:
  assumes "stress_stats raw = Inr r"
  shows "rest_minutes r = rest (stress_loop (samples_of (hourly_stress r)))
       \<and> low_stress_minutes r = low (stress_loop (samples_of (hourly_stress r)))
       \<and> medium_stress_minutes r = medium (stress_loop (samples_of (hourly_stress r)))
       \<and> high_stress_minutes r = high (stress_loop (samples_of (hourly_stress r)))
       \<and> stat_total_stress_minutes r
           = total_stress_minutes (stress_loop (samples_of (hourly_stress r)))"
  using assms
  by (auto simp: stress_stats_def Let_def samples_of_def split: sum.splits if_splits)

subsection \<open>Bucket totals of the stress record\<close>

text \<open>
  Claim C3. As stated (every bucket total is a non-negative multiple of the 3-minute
  interval, and the four totals sum to at most the monitored minutes reported with
  them) the second half fails: a sample at level 0 adds its 3 minutes to \<open>rest\<close>
  (\<open>0 <= stress <= 25\<close>) but not to \<open>total_stress_minutes\<close> (\<open>stress > 0\<close>). On the
  day whose only sample is \<open>[1700000000000, 0]\<close> the record has \<open>rest_minutes = 3\<close>
  and \<open>total_stress_minutes = 0\<close>.
\<close>

theorem stress_bucket_sum_counterexample:
  "(case stress_stats level_zero_day of
      Inl e \<Rightarrow> False
    | Inr r \<Rightarrow> rest_minutes r = 3 \<and> stat_total_stress_minutes r = 0
        \<and> \<not> (rest_minutes r + low_stress_minutes r + medium_stress_minutes r
               + high_stress_minutes r \<le> stat_total_stress_minutes r))"
  by (simp add: level_zero_day_def stress_stats_def stress_loop_def stress_init_def
        stress_of_def add_bucket_def add_monitored_def duration_minutes_def
        computed_average_def round2_def round_half_even_def)

text \<open>
  Claim C3, amended. Whenever \<open>get_stress\<close> produces a record, each of the four
  bucket totals is a non-negative multiple of the 3-minute interval; the low,
  medium and high totals together are at most the monitored minutes; and all four
  together exceed the monitored minutes by at most 3 minutes per sample whose level
  is 0 (a level that is not a number counts as 0).
\<close>

theorem stress_record_buckets:
  assumes "stress_stats raw = Inr r"
  shows "0 \<le> rest_minutes r \<and> duration_minutes dvd rest_minutes r
       \<and> 0 \<le> low_stress_minutes r \<and> duration_minutes dvd low_stress_minutes r
       \<and> 0 \<le> medium_stress_minutes r \<and> duration_minutes dvd medium_stress_minutes r
       \<and> 0 \<le> high_stress_minutes r \<and> duration_minutes dvd high_stress_minutes r
       \<and> low_stress_minutes r + medium_stress_minutes r + high_stress_minutes r
            \<le> stat_total_stress_minutes r
       \<and> rest_minutes r + low_stress_minutes r + medium_stress_minutes r + high_stress_minutes r
            \<le> stat_total_stress_minutes r
              + duration_minutes * count_levels (\<lambda>l. l = 0) (samples_of (hourly_stress r))"
proof -
  define vs where "vs = samples_of (hourly_stress r)"
  note f = stress_stats_fields [OF assms, folded vs_def]
  have r: "rest_minutes r = 3 * count_levels (\<lambda>l. 0 \<le> l \<and> l \<le> 25) vs"
    using f by (simp add: stress_loop_def rest_fold stress_init_def)
  have l: "low_stress_minutes r = 3 * count_levels (\<lambda>l. 26 \<le> l \<and> l \<le> 50) vs"
    using f by (simp add: stress_loop_def low_fold stress_init_def)
  have m: "medium_stress_minutes r = 3 * count_levels (\<lambda>l. 51 \<le> l \<and> l \<le> 75) vs"
    using f by (simp add: stress_loop_def medium_fold stress_init_def)
  have h: "high_stress_minutes r = 3 * count_levels (\<lambda>l. 75 < l) vs"
    using f by (simp add: stress_loop_def high_fold stress_init_def)
  have t: "stat_total_stress_minutes r = 3 * count_levels (\<lambda>l. 0 < l) vs"
    using f by (simp add: stress_loop_def total_fold stress_init_def)
  have a: "count_levels (\<lambda>l. 26 \<le> l \<and> l \<le> 50) vs + count_levels (\<lambda>l. 51 \<le> l \<and> l \<le> 75) vs
      + count_levels (\<lambda>l. 75 < l) vs \<le> count_levels (\<lambda>l. 0 < l) vs"
    unfolding count_levels_def by (rule active_le_monitored_list)
  have b: "count_levels (\<lambda>l. 0 \<le> l \<and> l \<le> 25) vs + count_levels (\<lambda>l. 26 \<le> l \<and> l \<le> 50) vs
      + count_levels (\<lambda>l. 51 \<le> l \<and> l \<le> 75) vs + count_levels (\<lambda>l. 75 < l) vs
      \<le> count_levels (\<lambda>l. 0 < l) vs + count_levels (\<lambda>l. l = 0) vs"
    unfolding count_levels_def by (rule buckets_le_monitored_zero_list)
  have nn: "\<And>P. 0 \<le> count_levels P vs"
    by (rule count_levels_nonneg)
  show ?thesis
    unfolding vs_def [symmetric] r l m h t duration_minutes_def
    using a b nn by simp
qed

theorem stress_record_buckets_witness:
  "stress_stats level_zero_day =
     Inr \<lparr>rest_minutes = 3, low_stress_minutes = 0, medium_stress_minutes = 0,
          high_stress_minutes = 0, average_stress = 0, stat_max_stress = 0,
          stat_total_stress_minutes = 0,
          hourly_stress = JList [JList [JInt 1700000000000, JInt 0]]\<rparr>
   \<and> (3::int) \<le> 0 + duration_minutes
         * count_levels (\<lambda>l. l = 0) [JList [JInt 1700000000000, JInt 0]]"
proof -
  have e: "stress_stats level_zero_day =
     Inr \<lparr>rest_minutes = 3, low_stress_minutes = 0, medium_stress_minutes = 0,
          high_stress_minutes = 0, average_stress = 0, stat_max_stress = 0,
          stat_total_stress_minutes = 0,
          hourly_stress = JList [JList [JInt 1700000000000, JInt 0]]\<rparr>"
    by (simp add: level_zero_day_def stress_stats_def stress_loop_def stress_init_def
        stress_of_def add_bucket_def add_monitored_def duration_minutes_def
        computed_average_def round2_def round_half_even_def)
  from stress_record_buckets [OF e] show ?thesis
    using e by (simp add: samples_of_def)
qed

subsection \<open>Which bucket a sample goes to\<close>

text \<open>
  Claim C4. As stated (every sample with level \<open>\<ge> 0\<close> adds its 3 minutes to exactly
  one of rest [0,25], low [26,50], medium [51,75], high [76,\<infinity>)) the claim fails
  for a level that is not a whole number: the code takes ints and floats
  (\<open>isinstance(value[1], (int, float))\<close>), and the sample \<open>[1700000000000, 25.5]\<close> has
  level \<open>\<ge> 0\<close> but meets none of the four conditions, so no bucket grows.
\<close>

theorem stress_fractional_level_counterexample:
  "levels fractional_level_samples = [51 / 2] \<and> (0::rat) \<le> 51 / 2
   \<and> rest (stress_loop fractional_level_samples) = 0
   \<and> low (stress_loop fractional_level_samples) = 0
   \<and> medium (stress_loop fractional_level_samples) = 0
   \<and> high (stress_loop fractional_level_samples) = 0"
  by (simp add: fractional_level_samples_def levels_def stress_loop_def stress_init_def
        stress_of_def add_bucket_def add_monitored_def duration_minutes_def)

text \<open>
  Claim C4, amended. For every sample sequence (a level that is not a number counts
  as 0) each sample adds its 3 minutes to at most one bucket: to rest when
  \<open>0 \<le> level \<le> 25\<close>, to low when \<open>26 \<le> level \<le> 50\<close>, to medium when
  \<open>51 \<le> level \<le> 75\<close> and to high when \<open>level > 75\<close>. A sample with level \<open>\<ge> 0\<close> is
  added to exactly one bucket unless its level lies strictly between 25 and 26 or
  strictly between 50 and 51; such a sample is added to none. When all levels are
  whole numbers the high range is [76,\<infinity>) and every sample with level \<open>\<ge> 0\<close> is
  added to exactly one bucket.
\<close>

theorem stress_buckets_partition:
  "rest (stress_loop samples)
     = duration_minutes * count_levels (\<lambda>l. 0 \<le> l \<and> l \<le> 25) samples
   \<and> low (stress_loop samples)
     = duration_minutes * count_levels (\<lambda>l. 26 \<le> l \<and> l \<le> 50) samples
   \<and> medium (stress_loop samples)
     = duration_minutes * count_levels (\<lambda>l. 51 \<le> l \<and> l \<le> 75) samples
   \<and> high (stress_loop samples)
     = duration_minutes * count_levels (\<lambda>l. 75 < l) samples
   \<and> rest (stress_loop samples) + low (stress_loop samples)
       + medium (stress_loop samples) + high (stress_loop samples)
     = duration_minutes
         * count_levels (\<lambda>l. 0 \<le> l \<and> \<not> (25 < l \<and> l < 26) \<and> \<not> (50 < l \<and> l < 51)) samples
   \<and> ((\<forall>l \<in> set (levels samples). l \<in> \<int>) \<longrightarrow>
        high (stress_loop samples)
          = duration_minutes * count_levels (\<lambda>l. 76 \<le> l) samples
        \<and> rest (stress_loop samples) + low (stress_loop samples)
            + medium (stress_loop samples) + high (stress_loop samples)
          = duration_minutes * count_levels (\<lambda>l. 0 \<le> l) samples)"
proof -
  have r: "rest (stress_loop samples) = 3 * count_levels (\<lambda>l. 0 \<le> l \<and> l \<le> 25) samples"
    by (simp add: stress_loop_def rest_fold stress_init_def)
  have l: "low (stress_loop samples) = 3 * count_levels (\<lambda>l. 26 \<le> l \<and> l \<le> 50) samples"
    by (simp add: stress_loop_def low_fold stress_init_def)
  have m: "medium (stress_loop samples) = 3 * count_levels (\<lambda>l. 51 \<le> l \<and> l \<le> 75) samples"
    by (simp add: stress_loop_def medium_fold stress_init_def)
  have h: "high (stress_loop samples) = 3 * count_levels (\<lambda>l. 75 < l) samples"
    by (simp add: stress_loop_def high_fold stress_init_def)
  have p: "count_levels (\<lambda>l. 0 \<le> l \<and> l \<le> 25) samples
      + count_levels (\<lambda>l. 26 \<le> l \<and> l \<le> 50) samples
      + count_levels (\<lambda>l. 51 \<le> l \<and> l \<le> 75) samples
      + count_levels (\<lambda>l. 75 < l) samples
      = count_levels (\<lambda>l. 0 \<le> l \<and> \<not> (25 < l \<and> l < 26) \<and> \<not> (50 < l \<and> l < 51)) samples"
    unfolding count_levels_def by (rule buckets_partition_list)
  have general: "rest (stress_loop samples) + low (stress_loop samples)
       + medium (stress_loop samples) + high (stress_loop samples)
     = duration_minutes
         * count_levels (\<lambda>l. 0 \<le> l \<and> \<not> (25 < l \<and> l < 26) \<and> \<not> (50 < l \<and> l < 51)) samples"
    unfolding r l m h duration_minutes_def using p by simp
  have whole: "high (stress_loop samples)
          = duration_minutes * count_levels (\<lambda>l. 76 \<le> l) samples
        \<and> rest (stress_loop samples) + low (stress_loop samples)
            + medium (stress_loop samples) + high (stress_loop samples)
          = duration_minutes * count_levels (\<lambda>l. 0 \<le> l) samples"
    if i: "\<forall>l \<in> set (levels samples). l \<in> \<int>"
  proof -
    have hc: "count_levels (\<lambda>l. 75 < l) samples = count_levels (\<lambda>l. 76 \<le> l) samples"
      by (simp add: count_levels_def high_int_list [OF i])
    have q: "count_levels (\<lambda>l. 0 \<le> l \<and> l \<le> 25) samples
        + count_levels (\<lambda>l. 26 \<le> l \<and> l \<le> 50) samples
        + count_levels (\<lambda>l. 51 \<le> l \<and> l \<le> 75) samples
        + count_levels (\<lambda>l. 76 \<le> l) samples = count_levels (\<lambda>l. 0 \<le> l) samples"
      unfolding count_levels_def by (rule int_buckets_partition_list [OF i])
    show ?thesis
      unfolding r l m h hc duration_minutes_def using q by simp
  qed
  have rd: "rest (stress_loop samples)
      = duration_minutes * count_levels (\<lambda>l. 0 \<le> l \<and> l \<le> 25) samples"
    using r by (simp add: duration_minutes_def)
  have ld: "low (stress_loop samples)
      = duration_minutes * count_levels (\<lambda>l. 26 \<le> l \<and> l \<le> 50) samples"
    using l by (simp add: duration_minutes_def)
  have md: "medium (stress_loop samples)
      = duration_minutes * count_levels (\<lambda>l. 51 \<le> l \<and> l \<le> 75) samples"
    using m by (simp add: duration_minutes_def)
  have hd: "high (stress_loop samples)
      = duration_minutes * count_levels (\<lambda>l. 75 < l) samples"
    using h by (simp add: duration_minutes_def)
  from rd ld md hd general whole show ?thesis
    by blast
qed

theorem stress_buckets_partition_witness:
  "levels four_level_samples = [10, 40, 60, 90, - 1]
   \<and> rest (stress_loop four_level_samples) = 3
   \<and> low (stress_loop four_level_samples) = 3
   \<and> medium (stress_loop four_level_samples) = 3
   \<and> high (stress_loop four_level_samples) = 3
   \<and> count_levels (\<lambda>l. 76 \<le> l) four_level_samples = 1
   \<and> count_levels (\<lambda>l. 0 \<le> l) four_level_samples = 4"
proof -
  have lv: "levels four_level_samples = [10, 40, 60, 90, - 1]"
    by (simp add: four_level_samples_def levels_def stress_of_def)
  have i: "\<forall>l \<in> set (levels four_level_samples). l \<in> \<int>"
    unfolding lv by simp
  from stress_buckets_partition [of four_level_samples] i show ?thesis
    using lv by (simp add: count_levels_def duration_minutes_def)
qed

subsection \<open>Empty and malformed sample lists\<close>

text \<open>
  Claim C5. As stated (an empty or malformed sample list, entries that are not
  [timestamp, numeric-level] pairs included, gives four zero buckets and a zero
  average) the claim fails for an entry with two elements whose level is not a
  number: \<open>stress = value[1] if isinstance(value[1], (int, float)) else 0\<close> makes its
  level 0, and level 0 is in the rest range. The day whose only sample is
  \<open>[1700000000000, null]\<close> has \<open>rest_minutes = 3\<close>.
\<close>

theorem stress_null_level_counterexample:
  "(case stress_stats null_level_day of
      Inl e \<Rightarrow> False
    | Inr r \<Rightarrow> rest_minutes r = 3 \<and> rest_minutes r \<noteq> 0)"
  by (simp add: null_level_day_def stress_stats_def stress_loop_def stress_init_def
        stress_of_def add_bucket_def add_monitored_def duration_minutes_def
        computed_average_def round2_def round_half_even_def)

lemma skip_malformed:
  "\<forall>v \<in> set samples. \<not> well_formed v \<Longrightarrow> fold stress_step samples a = a"
proof (induction samples arbitrary: a)
  case Nil
  show ?case by simp
next
  case (Cons v samples)
  then have "stress_step v a = a"
    by (cases v) auto
  with Cons show ?case by simp
qed

text \<open>
  Claim C5, amended. When the sample list is empty, or every entry of it is
  something other than a list of at least two elements, and the payload carries
  no \<open>avgStressLevel\<close> and no \<open>maxStressLevel\<close> of its own, \<open>get_stress\<close> raises
  nothing and returns four zero buckets, average 0, maximum 0 and 0 monitored
  minutes.
\<close>

theorem stress_malformed_zero:
  assumes "py_get (stress_shape raw) ''stressValuesArray'' (JList []) = Inr (JList samples)"
      and "\<forall>v \<in> set samples. \<not> well_formed v"
      and "dict_get (stress_shape raw) ''avgStressLevel'' = JNull"
      and "dict_get (stress_shape raw) ''maxStressLevel'' = JNull"
  shows "stress_stats raw =
           Inr \<lparr>rest_minutes = 0, low_stress_minutes = 0, medium_stress_minutes = 0,
                high_stress_minutes = 0, average_stress = 0, stat_max_stress = 0,
                stat_total_stress_minutes = 0, hourly_stress = JList samples\<rparr>"
proof -
  have "stress_loop samples = stress_init"
    unfolding stress_loop_def by (rule skip_malformed [OF assms(2)])
  then show ?thesis
    using assms(1,3,4)
    by (simp add: stress_stats_def stress_init_def computed_average_def round2_def
        round_half_even_def)
qed

theorem stress_malformed_zero_witness:
  "stress_stats malformed_day =
     Inr \<lparr>rest_minutes = 0, low_stress_minutes = 0, medium_stress_minutes = 0,
          high_stress_minutes = 0, average_stress = 0, stat_max_stress = 0,
          stat_total_stress_minutes = 0,
          hourly_stress = JList [JNull, JInt 7, JStr ''x'', JList [JInt 1700000000000]]\<rparr>
   \<and> stress_stats (JDict []) =
     Inr \<lparr>rest_minutes = 0, low_stress_minutes = 0, medium_stress_minutes = 0,
          high_stress_minutes = 0, average_stress = 0, stat_max_stress = 0,
          stat_total_stress_minutes = 0, hourly_stress = JList []\<rparr>"
proof -
  have a: "stress_stats malformed_day = Inr \<lparr>rest_minutes = 0, low_stress_minutes = 0, medium_stress_minutes = 0,
          high_stress_minutes = 0, average_stress = 0, stat_max_stress = 0,
          stat_total_stress_minutes = 0,
          hourly_stress = JList [JNull, JInt 7, JStr ''x'', JList [JInt 1700000000000]]\<rparr>"
    by (rule stress_malformed_zero) (simp_all add: malformed_day_def)
  have b: "stress_stats (JDict []) = Inr \<lparr>rest_minutes = 0, low_stress_minutes = 0, medium_stress_minutes = 0,
          high_stress_minutes = 0, average_stress = 0, stat_max_stress = 0,
          stat_total_stress_minutes = 0, hourly_stress = JList []\<rparr>"
    by (rule stress_malformed_zero) simp_all
  from a b show ?thesis by simp
qed

section \<open>Floors climbed\<close>

text \<open>\<open>floorValuesArray\<close> holds entries \<open>[startTime, endTime, floorsAscended,
  floorsDescended]\<close>. The loop of \<open>get_health_metrics\<close> (the same lines stand in
  \<open>sync_date_to_database\<close>) adds \<open>entry[2]\<close> of every entry that is a list of more
  than two elements, taking 0 for an \<open>entry[2]\<close> that is not a number.\<close>

fun floors_ascended :: "json \<Rightarrow> rat" where
  "floors_ascended (JList e) =
     (if 2 < length e then (if is_number (e ! 2) then num_val (e ! 2) else 0) else 0)"
| "floors_ascended entry = 0"

definition total_floors :: "json list \<Rightarrow> rat" where
  "total_floors floor_array = fold (\<lambda>entry t. t + floors_ascended entry) floor_array 0"

text \<open>\<open>floors\<close> of \<open>get_health_metrics\<close>: \<open>None\<close> unless the payload is a non-empty
  dict with a non-empty list under \<open>floorValuesArray\<close> and a positive total, or a
  non-zero number, which is passed through.\<close>

definition health_floors :: "json \<Rightarrow> rat option" where
  "health_floors floors_data =
     (if truthy floors_data \<and> is_dict floors_data then
        (case py_get floors_data ''floorValuesArray'' (JList []) of
           Inr (JList floor_array) \<Rightarrow>
             (if floor_array \<noteq> []
              then (if 0 < total_floors floor_array then Some (total_floors floor_array) else None)
              else None)
         | _ \<Rightarrow> None)
      else if truthy floors_data \<and> is_number floors_data then Some (num_val floors_data)
      else None)"

text \<open>\<open>floors_climbed\<close> of \<open>get_all_data\<close>: the generator expression keeps the
  entries that are lists of more than two elements with a number at index 2, and
  \<open>sum\<close> of it is returned as it is.\<close>

fun counted_entry :: "json \<Rightarrow> bool" where
  "counted_entry (JList e) = (2 < length e \<and> is_number (e ! 2))"
| "counted_entry entry = False"

definition all_data_floors :: "json \<Rightarrow> py_exn + rat option" where
  "all_data_floors floors_data =
     (if truthy floors_data \<and> is_dict floors_data
         \<and> truthy (dict_get floors_data ''floorValuesArray'')
      then (case py_iter (dict_get floors_data ''floorValuesArray'') of
              Inl e \<Rightarrow> Inl e
            | Inr entries \<Rightarrow>
                Inr (Some (sum_list (map floors_ascended (filter counted_entry entries)))))
      else Inr None)"

text \<open>The two payloads of the specification's example.\<close>

definition floors_five :: json where
  "floors_five = JDict [(''floorValuesArray'',
     JList [JList [JStr ''2026-01-15T07:00:00.0'', JStr ''2026-01-15T07:15:00.0'', JInt 5, JInt 2],
            JList [JStr ''2026-01-15T07:15:00.0'', JStr ''2026-01-15T07:30:00.0'', JInt 0, JInt 1]])]"

definition floors_none :: json where
  "floors_none = JDict [(''floorValuesArray'',
     JList [JList [JStr ''2026-01-15T07:00:00.0'', JStr ''2026-01-15T07:15:00.0'', JInt 0, JInt 0]])]"

lemma total_floors_fold:
  "fold (\<lambda>entry t. t + floors_ascended entry) floor_array t0
     = t0 + sum_list (map floors_ascended floor_array)"
  by (induction floor_array arbitrary: t0) simp_all

lemma total_floors_sum: "total_floors floor_array = sum_list (map floors_ascended floor_array)"
  by (simp add: total_floors_def total_floors_fold)

lemma uncounted_entry_zero: "\<not> counted_entry entry \<Longrightarrow> floors_ascended entry = 0"
  by (cases entry) auto

lemma counted_sum:
  "sum_list (map floors_ascended (filter counted_entry entries))
     = sum_list (map floors_ascended entries)"
  by (induction entries) (simp_all add: uncounted_entry_zero)

text \<open>\<open>get_all_data\<close> returns the same sum for a non-empty array, zero or not.\<close>

lemma all_data_floors_sum:
  "floor_array \<noteq> [] \<Longrightarrow>
     all_data_floors (JDict [(''floorValuesArray'', JList floor_array)])
       = Inr (Some (sum_list (map floors_ascended floor_array)))"
  by (simp add: all_data_floors_def counted_sum)

text \<open>In \<open>get_health_metrics\<close> and in the sync a total of 0 is reported as absent and
  a positive total as itself, for every array.\<close>

lemma health_floors_policy:
  "health_floors (JDict [(''floorValuesArray'', JList floor_array)]) =
     (if 0 < sum_list (map floors_ascended floor_array)
      then Some (sum_list (map floors_ascended floor_array)) else None)"
  by (simp add: health_floors_def total_floors_sum)

text \<open>
  Claim C6. The claim holds of \<open>get_health_metrics\<close> and of the sync
  (\<open>health_floors_policy\<close>), and the code breaks it in \<open>get_all_data\<close>, one of the
  places the claim is read from: there the sum is returned without the test
  \<open>total_floors > 0\<close>. For the array \<open>[[t0, t1, 0, 0]]\<close> the sum of index 2 is 0;
  \<open>get_health_metrics\<close> reports the floors as absent, \<open>get_all_data\<close> reports 0.
  For \<open>[[t0, t1, 5, 2], [t1, t2, 0, 1]]\<close> both report 5.
\<close>

theorem all_data_floors_zero_not_absent:
  "all_data_floors floors_none = Inr (Some 0)
   \<and> health_floors floors_none = None
   \<and> all_data_floors floors_five = Inr (Some 5)
   \<and> health_floors floors_five = Some 5"
  by (simp add: all_data_floors_def health_floors_def total_floors_def
        floors_none_def floors_five_def)

section \<open>Stored rows\<close>

text \<open>
  Every model of \<open>database.py\<close> has the columns \<open>id\<close> (the primary key, assigned by
  the database when the row is inserted), \<open>email\<close>, \<open>date\<close> and \<open>full_data\<close>; an
  instance that has not been inserted has no \<open>id\<close> yet. The data columns hold the
  value the code assigns, \<open>JNull\<close> for \<open>None\<close>. The columns \<open>created_at\<close> and
  \<open>updated_at\<close>, which the code never assigns, are left out. A table is the list
  of its rows.
\<close>

record pydate =
  year :: nat
  month :: nat
  day :: nat

record row =
  row_id :: "nat option"
  email :: string
  date :: pydate
  full_data :: json

text \<open>\<open>Model.query.filter_by(email=email, date=date_obj).first()\<close>.\<close>

definition same_key :: "string \<Rightarrow> pydate \<Rightarrow> 'a row_scheme \<Rightarrow> bool" where
  "same_key e d r = (email r = e \<and> date r = d)"

definition query_first :: "string \<Rightarrow> pydate \<Rightarrow> 'a row_scheme list \<Rightarrow> 'a row_scheme option" where
  "query_first e d tbl = find (same_key e d) tbl"

text \<open>Assignments to the attributes of the instance that \<open>first()\<close> returned change
  that row of the table.\<close>

fun update_first :: "('r \<Rightarrow> bool) \<Rightarrow> ('r \<Rightarrow> 'r) \<Rightarrow> 'r list \<Rightarrow> 'r list" where
  "update_first P f [] = []"
| "update_first P f (r # rs) = (if P r then f r # rs else r # update_first P f rs)"

text \<open>\<open>db.session.add(record)\<close>: the row is inserted under the next free \<open>id\<close>.\<close>

definition next_id :: "'a row_scheme list \<Rightarrow> nat" where
  "next_id tbl = Suc (fold (\<lambda>r m. case row_id r of None \<Rightarrow> m | Some i \<Rightarrow> max i m) tbl 0)"

definition session_add :: "'a row_scheme \<Rightarrow> 'a row_scheme list \<Rightarrow> 'a row_scheme list" where
  "session_add r tbl = tbl @ [r\<lparr>row_id := Some (next_id tbl)\<rparr>]"

text \<open>The rows stored under a natural key.\<close>

definition rows_for :: "string \<Rightarrow> pydate \<Rightarrow> 'a row_scheme list \<Rightarrow> 'a row_scheme list" where
  "rows_for e d tbl = filter (same_key e d) tbl"

text \<open>What a family's block of the sync leaves in \<open>sync_status\<close>: \<open>'success'\<close>,
  \<open>'no_data'\<close> or \<open>'error: ' + str(e)\<close>.\<close>

datatype status = Success | No_data | Error py_exn

text \<open>\<open>db.UniqueConstraint('email', 'date')\<close>, and the commit of a session by a
  database that stores every value as it was assigned: the pending rows reach the
  table only if the constraint holds with them; otherwise the flush raises, the
  handler rolls back and the table is as before.\<close>

definition unique_user_date :: "'a row_scheme list \<Rightarrow> bool" where
  "unique_user_date tbl = distinct (map (\<lambda>r. (email r, date r)) tbl)"

definition commit ::
  "'a row_scheme list \<Rightarrow> 'a row_scheme list \<Rightarrow> 'a row_scheme list \<times> (py_exn + unit)" where
  "commit stored pending =
     (if unique_user_date pending then (pending, Inr ()) else (stored, Inl IntegrityError))"

text \<open>
  The database itself is outside the repository. Which values a column accepts,
  and what it holds for a value it accepts, is decided there: an \<open>Integer\<close> column
  of PostgreSQL refuses 2147483648 and holds 25260 for 25259.5. A table is
  therefore read in two ways: as stored, and as the session has it, with the
  attribute values the code assigned. In a statement about every input,
  \<open>db.session.commit()\<close> is a parameter \<open>db_commit stored session\<close>: the table as stored
  after the commit, with the exception the commit raised, if it raised one. Of
  this parameter a statement assumes only \<open>keeps_column\<close>, for the columns and the
  values it names: after a commit that succeeded, the stored row of a key holds in
  column \<open>col\<close> the value the session's row of that key had there, provided the
  value is one of those \<open>kept\<close>. The values taken as kept are \<open>None\<close> and, in an
  \<open>Integer\<close> column, the ints of 32 bits. \<open>commit\<close> above keeps every value.
\<close>

definition keeps_column ::
  "('a row_scheme list \<Rightarrow> 'a row_scheme list \<Rightarrow> 'a row_scheme list \<times> (py_exn + unit))
     \<Rightarrow> (json \<Rightarrow> bool) \<Rightarrow> ('a row_scheme \<Rightarrow> json) \<Rightarrow> bool" where
  "keeps_column db_commit kept col =
     (\<forall>stored session stored' e d r.
        db_commit stored session = (stored', Inr ()) \<and> query_first e d session = Some r
          \<and> kept (col r)
        \<longrightarrow> (\<exists>w. query_first e d stored' = Some w \<and> col w = col r))"

fun is_null :: "json \<Rightarrow> bool" where
  "is_null JNull = True"
| "is_null j = False"

fun fits_integer :: "json \<Rightarrow> bool" where
  "fits_integer JNull = True"
| "fits_integer (JInt n) = (- 2147483648 \<le> n \<and> n \<le> 2147483647)"
| "fits_integer j = False"

section \<open>Sleep duration\<close>

record sleep_row = row +
  sleep_score :: json
  sleep_duration_seconds :: json
  sleep_duration_minutes :: json
  deep_sleep_seconds :: json
  light_sleep_seconds :: json
  rem_sleep_seconds :: json
  awake_seconds :: json

text \<open>\<open>x // 60\<close>: floor division of an int (a bool is an int) gives an int, of a
  float a float; a string, a list or a dict raises \<open>TypeError\<close>. It is applied to
  truthy values only, so never to \<open>None\<close>. The floor division of a float is the
  interpreter's and is a parameter, \<open>fdiv\<close>.\<close>

fun floordiv60 :: "(rat \<Rightarrow> rat) \<Rightarrow> json \<Rightarrow> py_exn + json" where
  "floordiv60 fdiv (JInt n) = Inr (JInt (n div 60))"
| "floordiv60 fdiv (JBool b) = Inr (JInt ((if b then 1 else 0) div 60))"
| "floordiv60 fdiv (JFloat r) = Inr (JFloat (fdiv r))"
| "floordiv60 fdiv j = Inl TypeError"

text \<open>\<open>sleep_time_minutes = (sleep_time_seconds // 60) if sleep_time_seconds else None\<close>.\<close>

definition sleep_minutes :: "(rat \<Rightarrow> rat) \<Rightarrow> json \<Rightarrow> py_exn + json" where
  "sleep_minutes fdiv sleep_time_seconds =
     (if truthy sleep_time_seconds then floordiv60 fdiv sleep_time_seconds else Inr JNull)"

text \<open>\<open>d.get(k, {})\<close> and \<open>k in d\<close> on a dict.\<close>

fun dict_get_or :: "json \<Rightarrow> string \<Rightarrow> json \<Rightarrow> json" where
  "dict_get_or (JDict kvs) k dflt = (case map_of kvs k of None \<Rightarrow> dflt | Some v \<Rightarrow> v)"
| "dict_get_or j k dflt = dflt"

fun has_key :: "json \<Rightarrow> string \<Rightarrow> bool" where
  "has_key (JDict kvs) k = (map_of kvs k \<noteq> None)"
| "has_key j k = False"

text \<open>The duration pair of \<open>get_sleep\<close> (lines 488, 497 and 498):
  \<open>daily_sleep.get('sleepTimeSeconds') or (sleep_data.get('sleepTimeSeconds') if
  isinstance(sleep_data, dict) else None)\<close>; \<open>daily_sleep\<close> is the value under
  \<open>dailySleepDTO\<close>, which need not be a dict.\<close>

definition get_sleep_duration :: "(rat \<Rightarrow> rat) \<Rightarrow> json \<Rightarrow> py_exn + json \<times> json" where
  "get_sleep_duration fdiv sleep_data =
     (let daily_sleep =
            (if is_dict sleep_data \<and> truthy sleep_data
             then dict_get_or sleep_data ''dailySleepDTO'' (JDict []) else JDict [])
      in case py_get daily_sleep ''sleepTimeSeconds'' JNull of
           Inl e \<Rightarrow> Inl e
         | Inr s1 \<Rightarrow>
             (let sleep_time_seconds =
                    py_or s1 (if is_dict sleep_data then dict_get sleep_data ''sleepTimeSeconds''
                              else JNull)
              in case sleep_minutes fdiv sleep_time_seconds of
                   Inl e \<Rightarrow> Inl e
                 | Inr sleep_time_minutes \<Rightarrow> Inr (sleep_time_seconds, sleep_time_minutes)))"

text \<open>The sleep block of \<open>sync_date_to_database\<close>, from the fetched \<open>sleep_data\<close> to the
  session. \<open>daily_sleep = sleep_data.get('dailySleepDTO', {}) if isinstance(sleep_data,
  dict) else {}\<close>. The score is read from \<open>sleepScores.overall.value\<close>, then from the
  chain of conditional expressions (\<open>a if c else None or b if c' else ...\<close> is
  \<open>a if c else ((None or b) if c' else ...)\<close>).\<close>

definition sync_daily_sleep :: "json \<Rightarrow> json" where
  "sync_daily_sleep sleep_data =
     (if is_dict sleep_data then dict_get_or sleep_data ''dailySleepDTO'' (JDict []) else JDict [])"

definition sync_sleep_score :: "json \<Rightarrow> json \<Rightarrow> json" where
  "sync_sleep_score sleep_data daily_sleep =
     (let sleep_scores = dict_get_or daily_sleep ''sleepScores'' (JDict []);
          overall = dict_get_or sleep_scores ''overall'' (JDict []);
          s0 = (if is_dict daily_sleep \<and> is_dict sleep_scores \<and> has_key sleep_scores ''overall''
                   \<and> is_dict overall
                then dict_get overall ''value'' else JNull)
      in if truthy s0 then s0
         else if is_dict sleep_data then dict_get sleep_data ''sleepScore''
         else if is_dict daily_sleep then py_or JNull (dict_get daily_sleep ''sleepScore'')
         else if is_dict sleep_data then py_or JNull (dict_get sleep_data ''sleepQualityScore'')
         else if is_dict daily_sleep then py_or JNull (dict_get daily_sleep ''sleepQualityScore'')
         else JNull)"

definition sync_sleep_seconds :: "json \<Rightarrow> json \<Rightarrow> json" where
  "sync_sleep_seconds sleep_data daily_sleep =
     (let s1 = (if is_dict daily_sleep then dict_get daily_sleep ''sleepTimeSeconds'' else JNull)
      in if \<not> truthy s1 \<and> is_dict sleep_data then dict_get sleep_data ''sleepTimeSeconds''
         else s1)"

text \<open>The three values resolved before the lookup (lines 1220 to 1241): the
  score, the seconds and the minutes.\<close>

definition sync_sleep_resolve :: "(rat \<Rightarrow> rat) \<Rightarrow> json \<Rightarrow> py_exn + json \<times> json \<times> json" where
  "sync_sleep_resolve fdiv sleep_data =
     (let daily_sleep = sync_daily_sleep sleep_data;
          score = sync_sleep_score sleep_data daily_sleep;
          sleep_time_seconds = sync_sleep_seconds sleep_data daily_sleep
      in case sleep_minutes fdiv sleep_time_seconds of
           Inl ex \<Rightarrow> Inl ex
         | Inr sleep_time_minutes \<Rightarrow> Inr (score, sleep_time_seconds, sleep_time_minutes))"

text \<open>\<open>daily_sleep.get(k) or (sleep_data.get(k) if isinstance(sleep_data, dict) else
  None)\<close>, for the four stage columns.\<close>

definition stage_seconds :: "json \<Rightarrow> json \<Rightarrow> string \<Rightarrow> py_exn + json" where
  "stage_seconds sleep_data daily_sleep k =
     (case py_get daily_sleep k JNull of
        Inl e \<Rightarrow> Inl e
      | Inr v \<Rightarrow> Inr (py_or v (if is_dict sleep_data then dict_get sleep_data k else JNull)))"

definition sleep_stages :: "json \<Rightarrow> json \<Rightarrow> py_exn + json \<times> json \<times> json \<times> json" where
  "sleep_stages sleep_data daily_sleep =
     (case stage_seconds sleep_data daily_sleep ''deepSleepSeconds'' of
        Inl e \<Rightarrow> Inl e
      | Inr deep \<Rightarrow>
     (case stage_seconds sleep_data daily_sleep ''lightSleepSeconds'' of
        Inl e \<Rightarrow> Inl e
      | Inr light \<Rightarrow>
     (case stage_seconds sleep_data daily_sleep ''remSleepSeconds'' of
        Inl e \<Rightarrow> Inl e
      | Inr rem \<Rightarrow>
     (case stage_seconds sleep_data daily_sleep ''awakeSleepSeconds'' of
        Inl e \<Rightarrow> Inl e
      | Inr awake \<Rightarrow> Inr (deep, light, rem, awake)))))"

text \<open>From the lookup on (lines 1244 to 1270), on the table as the session has it:
  the table after the assignments or the \<open>add\<close>, and either the exception that left
  the \<open>try\<close> or the status written. On the update path the first three assignments
  are made before the stage columns are read, so they stay on the row when that
  read raises.\<close>

definition sync_sleep_store ::
  "string \<Rightarrow> pydate \<Rightarrow> json \<Rightarrow> json \<times> json \<times> json \<Rightarrow> sleep_row list
     \<Rightarrow> sleep_row list \<times> (py_exn + status)" where
  "sync_sleep_store e d sleep_data resolved tbl =
     (case resolved of (score, sleep_time_seconds, sleep_time_minutes) \<Rightarrow>
        (let daily_sleep = sync_daily_sleep sleep_data
         in case query_first e d tbl of
              Some existing_sleep \<Rightarrow>
                (let tbl1 = update_first (same_key e d)
                              (\<lambda>r. r\<lparr>sleep_score := score,
                                     sleep_duration_seconds := sleep_time_seconds,
                                     sleep_duration_minutes := sleep_time_minutes\<rparr>) tbl
                 in case sleep_stages sleep_data daily_sleep of
                      Inl ex \<Rightarrow> (tbl1, Inl ex)
                    | Inr (deep, light, rem, awake) \<Rightarrow>
                        (update_first (same_key e d)
                           (\<lambda>r. r\<lparr>deep_sleep_seconds := deep,
                                  light_sleep_seconds := light,
                                  rem_sleep_seconds := rem,
                                  awake_seconds := awake,
                                  full_data := (if is_dict sleep_data then sleep_data
                                                else JDict [])\<rparr>) tbl1,
                         Inr Success))
            | None \<Rightarrow>
                (case sleep_stages sleep_data daily_sleep of
                   Inl ex \<Rightarrow> (tbl, Inl ex)
                 | Inr (deep, light, rem, awake) \<Rightarrow>
                     (session_add
                        \<lparr>row_id = None, email = e, date = d,
                         full_data = (if is_dict sleep_data then sleep_data else JDict []),
                         sleep_score = score,
                         sleep_duration_seconds = sleep_time_seconds,
                         sleep_duration_minutes = sleep_time_minutes,
                         deep_sleep_seconds = deep,
                         light_sleep_seconds = light,
                         rem_sleep_seconds = rem,
                         awake_seconds = awake\<rparr> tbl,
                      Inr Success))))"

text \<open>The body of the block after the fetch. The query flushes the session first
  (autoflush), and the flush sends the writes that earlier blocks left pending;
  \<open>flush\<close> is its outcome, \<open>Inl\<close> the exception it raised.\<close>

definition sync_sleep ::
  "(rat \<Rightarrow> rat) \<Rightarrow> py_exn + unit \<Rightarrow> string \<Rightarrow> pydate \<Rightarrow> json \<Rightarrow> sleep_row list
     \<Rightarrow> sleep_row list \<times> (py_exn + status)" where
  "sync_sleep fdiv flush e d sleep_data tbl =
     (if \<not> truthy sleep_data then (tbl, Inr No_data)
      else case sync_sleep_resolve fdiv sleep_data of
             Inl ex \<Rightarrow> (tbl, Inl ex)
           | Inr resolved \<Rightarrow>
               (case flush of
                  Inl ex \<Rightarrow> (tbl, Inl ex)
                | Inr u \<Rightarrow> sync_sleep_store e d sleep_data resolved tbl))"

text \<open>The minutes that belong to a duration in seconds which is an int or absent:
  the floor quotient for an int other than 0, nothing otherwise.\<close>

fun minutes_for :: "json \<Rightarrow> json" where
  "minutes_for (JInt n) = (if n = 0 then JNull else JInt (n div 60))"
| "minutes_for j = JNull"

text \<open>For the examples, none of which divides a float: the floor of the exact
  quotient.\<close>

definition floor60 :: "rat \<Rightarrow> rat" where
  "floor60 r = of_int \<lfloor>r / 60\<rfloor>"

definition zero_seconds_night :: json where
  "zero_seconds_night = JDict [(''sleepTimeSeconds'', JInt 0)]"

definition seven_hours_night :: json where
  "seven_hours_night = JDict [(''dailySleepDTO'', JDict [(''sleepTimeSeconds'', JInt 25259)])]"

definition day_2026_01_15 :: pydate where
  "day_2026_01_15 = \<lparr>year = 2026, month = 1, day = 15\<rparr>"

definition stored_night :: sleep_row where
  "stored_night =
     \<lparr>row_id = Some 4, email = ''u@example.com'', date = day_2026_01_15,
      full_data = JDict [], sleep_score = JInt 80,
      sleep_duration_seconds = JInt 30000, sleep_duration_minutes = JInt 500,
      deep_sleep_seconds = JInt 6000, light_sleep_seconds = JInt 18000,
      rem_sleep_seconds = JInt 6000, awake_seconds = JInt 300\<rparr>"

lemma commit_keeps_column: "keeps_column commit kept col"
  unfolding keeps_column_def commit_def by (auto split: if_splits)

lemma sleep_minutes_for:
  assumes "sleep_minutes fdiv secs = Inr mins" and "fits_integer secs"
  shows "mins = minutes_for secs \<and> fits_integer mins"
  using assms by (cases secs) (auto simp: sleep_minutes_def split: if_splits)

lemma query_update_first:
  assumes "query_first e d tbl = Some r" and "\<And>x. same_key e d (f x) = same_key e d x"
  shows "query_first e d (update_first (same_key e d) f tbl) = Some (f r)"
  using assms unfolding query_first_def
  by (induction tbl) (auto split: if_splits)

lemma query_update_first_row:
  assumes "query_first e d tbl = Some r" and "same_key e d (f r)"
  shows "query_first e d (update_first (same_key e d) f tbl) = Some (f r)"
  using assms unfolding query_first_def
  by (induction tbl) (auto split: if_splits)

lemma find_snoc:
  "find P xs = None \<Longrightarrow> P x \<Longrightarrow> find P (xs @ [x]) = Some x"
  by (induction xs) (auto split: if_splits)

lemma query_session_add:
  assumes "query_first e d tbl = None" and "email r = e" and "date r = d"
  shows "query_first e d (session_add r tbl) = Some (r\<lparr>row_id := Some (next_id tbl)\<rparr>)"
  using assms unfolding query_first_def session_add_def
  by (intro find_snoc) (simp_all add: same_key_def)

text \<open>A block that ends with \<open>success\<close> leaves, under the key, a row whose two
  duration columns are the resolved pair.\<close>

lemma sync_sleep_store_durations:
  assumes "sync_sleep_store e d sleep_data (score, secs, mins) tbl = (session, Inr Success)"
  shows "\<exists>r. query_first e d session = Some r
           \<and> sleep_duration_seconds r = secs \<and> sleep_duration_minutes r = mins"
proof (cases "query_first e d tbl")
  case None
  with assms obtain r0 where s: "session = session_add r0 tbl" and k: "email r0 = e" "date r0 = d"
    and v: "sleep_duration_seconds r0 = secs" "sleep_duration_minutes r0 = mins"
    unfolding sync_sleep_store_def Let_def
    by (auto split: sum.splits prod.splits)
  have "query_first e d session = Some (r0\<lparr>row_id := Some (next_id tbl)\<rparr>)"
    unfolding s by (rule query_session_add [OF None k])
  with v show ?thesis by simp
next
  case (Some r0)
  let ?f = "\<lambda>r::sleep_row. r\<lparr>sleep_score := score,
                sleep_duration_seconds := secs, sleep_duration_minutes := mins\<rparr>"
  from assms Some obtain g :: "sleep_row \<Rightarrow> sleep_row"
    where s: "session = update_first (same_key e d) g (update_first (same_key e d) ?f tbl)"
      and g: "\<And>x. same_key e d (g x) = same_key e d x"
             "\<And>x. sleep_duration_seconds (g x) = sleep_duration_seconds x"
             "\<And>x. sleep_duration_minutes (g x) = sleep_duration_minutes x"
    unfolding sync_sleep_store_def Let_def
    by (auto simp: same_key_def split: sum.splits prod.splits)
  have 1: "query_first e d (update_first (same_key e d) ?f tbl) = Some (?f r0)"
    by (rule query_update_first [OF Some]) (simp add: same_key_def)
  have "query_first e d session = Some (g (?f r0))"
    unfolding s by (rule query_update_first [OF 1 g(1)])
  with g show ?thesis by simp
qed

text \<open>
  Claim C9. As stated (whenever the stored duration in seconds is present, the
  stored minutes are the seconds divided by 60 with integer division) the claim
  fails when the resolved duration is 0: \<open>(sleep_time_seconds // 60) if
  sleep_time_seconds else None\<close> tests the truth value, and 0 is false. For the
  payload \<open>{"sleepTimeSeconds": 0}\<close> the sync assigns \<open>sleep_duration_seconds = 0\<close>,
  which is present, and \<open>sleep_duration_minutes = None\<close>, not \<open>0 // 60 = 0\<close>, and
  the commit stores the two as they are; \<open>get_sleep\<close> resolves the same pair.
\<close>

theorem sleep_zero_seconds_counterexample:
  "sync_sleep floor60 (Inr ()) ''u@example.com'' day_2026_01_15 zero_seconds_night [] =
     ([\<lparr>row_id = Some 1, email = ''u@example.com'', date = day_2026_01_15,
        full_data = zero_seconds_night, sleep_score = JNull,
        sleep_duration_seconds = JInt 0, sleep_duration_minutes = JNull,
        deep_sleep_seconds = JNull, light_sleep_seconds = JNull,
        rem_sleep_seconds = JNull, awake_seconds = JNull\<rparr>], Inr Success)
   \<and> map (\<lambda>w. (sleep_duration_seconds w, sleep_duration_minutes w))
       (fst (commit []
          (fst (sync_sleep floor60 (Inr ()) ''u@example.com'' day_2026_01_15
                  zero_seconds_night []))))
     = [(JInt 0, JNull)]
   \<and> get_sleep_duration floor60 zero_seconds_night = Inr (JInt 0, JNull)
   \<and> JNull \<noteq> JInt (0 div 60)"
  by (simp add: sync_sleep_def sync_sleep_resolve_def sync_sleep_store_def sync_daily_sleep_def
        zero_seconds_night_def sync_sleep_score_def
        sync_sleep_seconds_def sleep_minutes_def sleep_stages_def stage_seconds_def
        query_first_def session_add_def next_id_def py_or_def get_sleep_duration_def Let_def
        commit_def unique_user_date_def)

text \<open>
  Claim C9, amended. Whenever the sleep block of the sync ends with status
  \<open>success\<close>, the commit succeeds, and the duration in seconds was resolved as an
  int of 32 bits or as absent, the stored row of the key holds that value as its
  seconds, and as its minutes the floor quotient \<open>seconds div 60\<close> when the seconds
  are an int other than 0 and nothing when they are 0 or absent. The database is
  assumed to keep what an \<open>Integer\<close> column holds unchanged, an int of 32 bits and
  \<open>None\<close>, in the two duration columns. \<open>get_sleep\<close> resolves its pair of durations
  by the same rule.
\<close>

theorem sleep_minutes_stored:
  "(keeps_column db_commit fits_integer sleep_duration_seconds
      \<and> keeps_column db_commit fits_integer sleep_duration_minutes
      \<and> sync_sleep fdiv flush e d sleep_data tbl = (session, Inr Success)
      \<and> db_commit tbl session = (stored', Inr ())
      \<and> fits_integer (sync_sleep_seconds sleep_data (sync_daily_sleep sleep_data))
    \<longrightarrow> (\<exists>w. query_first e d stored' = Some w
           \<and> sleep_duration_seconds w = sync_sleep_seconds sleep_data (sync_daily_sleep sleep_data)
           \<and> sleep_duration_minutes w
               = minutes_for (sync_sleep_seconds sleep_data (sync_daily_sleep sleep_data))))
   \<and> (get_sleep_duration fdiv sleep_data = Inr (secs, mins) \<and> fits_integer secs
    \<longrightarrow> mins = minutes_for secs)"
proof (intro conjI impI)
  assume "get_sleep_duration fdiv sleep_data = Inr (secs, mins) \<and> fits_integer secs"
  then have "sleep_minutes fdiv secs = Inr mins" and "fits_integer secs"
    by (auto simp: get_sleep_duration_def Let_def split: sum.splits)
  then show "mins = minutes_for secs"
    using sleep_minutes_for by blast
next
  define secs where "secs = sync_sleep_seconds sleep_data (sync_daily_sleep sleep_data)"
  assume a: "keeps_column db_commit fits_integer sleep_duration_seconds
      \<and> keeps_column db_commit fits_integer sleep_duration_minutes
      \<and> sync_sleep fdiv flush e d sleep_data tbl = (session, Inr Success)
      \<and> db_commit tbl session = (stored', Inr ())
      \<and> fits_integer (sync_sleep_seconds sleep_data (sync_daily_sleep sleep_data))"
  then have ks: "keeps_column db_commit fits_integer sleep_duration_seconds"
    and km: "keeps_column db_commit fits_integer sleep_duration_minutes"
    and s: "sync_sleep fdiv flush e d sleep_data tbl = (session, Inr Success)"
    and c: "db_commit tbl session = (stored', Inr ())"
    and f: "fits_integer secs"
    by (simp_all add: secs_def)
  from s obtain score mins where r: "sync_sleep_resolve fdiv sleep_data = Inr (score, secs, mins)"
    and st: "sync_sleep_store e d sleep_data (score, secs, mins) tbl = (session, Inr Success)"
    unfolding sync_sleep_def sync_sleep_resolve_def secs_def Let_def
    by (auto split: if_splits sum.splits)
  from r have m: "sleep_minutes fdiv secs = Inr mins"
    unfolding sync_sleep_resolve_def secs_def Let_def by (auto split: sum.splits)
  from sleep_minutes_for [OF m f] have mf: "mins = minutes_for secs" and fm: "fits_integer mins"
    by blast+
  from sync_sleep_store_durations [OF st] obtain r0 where q: "query_first e d session = Some r0"
    and v: "sleep_duration_seconds r0 = secs" "sleep_duration_minutes r0 = mins"
    by blast
  from ks c q f v(1) obtain w where w: "query_first e d stored' = Some w"
    and ws: "sleep_duration_seconds w = secs"
    unfolding keeps_column_def by metis
  from km c q fm v(2) obtain w' where w': "query_first e d stored' = Some w'"
    and wm: "sleep_duration_minutes w' = mins"
    unfolding keeps_column_def by metis
  from w w' have "w' = w" by simp
  with w ws wm mf show "\<exists>w. query_first e d stored' = Some w
           \<and> sleep_duration_seconds w = sync_sleep_seconds sleep_data (sync_daily_sleep sleep_data)
           \<and> sleep_duration_minutes w
               = minutes_for (sync_sleep_seconds sleep_data (sync_daily_sleep sleep_data))"
    unfolding secs_def by blast
qed

theorem sleep_minutes_stored_witness:
  "sync_sleep floor60 (Inr ()) ''u@example.com'' day_2026_01_15 seven_hours_night [stored_night] =
     ([\<lparr>row_id = Some 4, email = ''u@example.com'', date = day_2026_01_15,
        full_data = seven_hours_night, sleep_score = JNull,
        sleep_duration_seconds = JInt 25259, sleep_duration_minutes = JInt 420,
        deep_sleep_seconds = JNull, light_sleep_seconds = JNull,
        rem_sleep_seconds = JNull, awake_seconds = JNull\<rparr>], Inr Success)
   \<and> sync_sleep_seconds seven_hours_night (sync_daily_sleep seven_hours_night) = JInt 25259
   \<and> (\<exists>w. query_first ''u@example.com'' day_2026_01_15
             (fst (commit [stored_night]
                (fst (sync_sleep floor60 (Inr ()) ''u@example.com'' day_2026_01_15
                        seven_hours_night [stored_night])))) = Some w
          \<and> sleep_duration_seconds w = JInt 25259
          \<and> sleep_duration_minutes w = JInt (25259 div 60))
   \<and> get_sleep_duration floor60 seven_hours_night = Inr (JInt 25259, JInt 420)"
proof -
  let ?row = "\<lparr>row_id = Some 4, email = ''u@example.com'', date = day_2026_01_15,
        full_data = seven_hours_night, sleep_score = JNull,
        sleep_duration_seconds = JInt 25259, sleep_duration_minutes = JInt 420,
        deep_sleep_seconds = JNull, light_sleep_seconds = JNull,
        rem_sleep_seconds = JNull, awake_seconds = JNull\<rparr>"
  have a: "sync_sleep floor60 (Inr ()) ''u@example.com'' day_2026_01_15 seven_hours_night
        [stored_night] = ([?row], Inr Success)"
    by (simp add: sync_sleep_def sync_sleep_resolve_def sync_sleep_store_def sync_daily_sleep_def
        seven_hours_night_def sync_sleep_score_def stored_night_def same_key_def
        sync_sleep_seconds_def sleep_minutes_def sleep_stages_def stage_seconds_def
        query_first_def py_or_def Let_def)
  have c: "commit [stored_night] [?row] = ([?row], Inr ())"
    by (simp add: commit_def unique_user_date_def)
  have s: "sync_sleep_seconds seven_hours_night (sync_daily_sleep seven_hours_night) = JInt 25259"
    by (simp add: sync_sleep_seconds_def sync_daily_sleep_def seven_hours_night_def)
  have b: "get_sleep_duration floor60 seven_hours_night = Inr (JInt 25259, JInt 420)"
    by (simp add: get_sleep_duration_def seven_hours_night_def sleep_minutes_def py_or_def)
  have f: "fits_integer (sync_sleep_seconds seven_hours_night (sync_daily_sleep seven_hours_night))"
    unfolding s by simp
  note t = sleep_minutes_stored [where db_commit = commit and fdiv = floor60
      and flush = "Inr ()" and e = "''u@example.com''" and d = day_2026_01_15
      and sleep_data = seven_hours_night and tbl = "[stored_night]" and session = "[?row]"
      and stored' = "[?row]" and secs = "JInt 25259" and mins = "JInt 420",
      THEN conjunct1, rule_format,
      OF conjI [OF commit_keeps_column conjI [OF commit_keeps_column conjI [OF a conjI [OF c f]]]]]
  from t a c s b show ?thesis
    by simp
qed

section \<open>Insert or update\<close>

text \<open>\<open>strftime('%Y-%m-%d')\<close> and \<open>isoformat()\<close> of a date: the year on four digits,
  the month and the day on two.\<close>

definition digit :: "nat \<Rightarrow> char" where
  "digit n = ''0123456789'' ! (n mod 10)"

definition isoformat :: "pydate \<Rightarrow> string" where
  "isoformat d =
     [digit (year d div 1000), digit (year d div 100), digit (year d div 10), digit (year d)]
     @ ''-'' @ [digit (month d div 10), digit (month d)]
     @ ''-'' @ [digit (day d div 10), digit (day d)]"

text \<open>The pattern of every handler but the steps and heart-rate blocks of the sync:
  look the row up by its natural key; when it is there, assign the new values to
  its attributes, otherwise add the new instance. \<open>assign new existing\<close> stands for
  the assignments of the update path.\<close>

definition upsert ::
  "('a row_scheme \<Rightarrow> 'a row_scheme \<Rightarrow> 'a row_scheme) \<Rightarrow> 'a row_scheme
     \<Rightarrow> 'a row_scheme list \<Rightarrow> 'a row_scheme list" where
  "upsert assign new tbl =
     (case query_first (email new) (date new) tbl of
        Some existing \<Rightarrow> update_first (same_key (email new) (date new)) (assign new) tbl
      | None \<Rightarrow> session_add new tbl)"

text \<open>\<open>db.session.merge(instance)\<close> reconciles the instance with the stored row of the
  same primary key; an instance that has no primary key, or whose primary key is
  not stored, becomes a new row.\<close>

definition session_merge :: "'a row_scheme \<Rightarrow> 'a row_scheme list \<Rightarrow> 'a row_scheme list" where
  "session_merge inst tbl =
     (case row_id inst of
        None \<Rightarrow> session_add inst tbl
      | Some i \<Rightarrow>
          (if find (\<lambda>r. row_id r = Some i) tbl = None then tbl @ [inst]
           else update_first (\<lambda>r. row_id r = Some i) (\<lambda>r. inst) tbl))"

subsection \<open>Steps\<close>

record steps_row = row +
  total_steps :: json
  hourly_data :: json

text \<open>The instance both handlers build from the two fetched documents:
  \<open>total_steps = user_summary.get('totalSteps', 0) if user_summary else 0\<close> and
  \<open>hourly_data = steps_data if isinstance(steps_data, list) else []\<close>.\<close>

definition steps_total :: "json \<Rightarrow> py_exn + json" where
  "steps_total user_summary =
     (if truthy user_summary then py_get user_summary ''totalSteps'' (JInt 0) else Inr (JInt 0))"

definition steps_hourly :: "json \<Rightarrow> json" where
  "steps_hourly steps_data = (if is_list steps_data then steps_data else JList [])"

text \<open>The record the steps block of \<open>sync_date_to_database\<close> builds; it has no
  \<open>id\<close>.\<close>

definition sync_steps_record :: "string \<Rightarrow> pydate \<Rightarrow> json \<Rightarrow> json \<Rightarrow> py_exn + steps_row" where
  "sync_steps_record e date_obj steps_data user_summary =
     (case steps_total user_summary of
        Inl ex \<Rightarrow> Inl ex
      | Inr tot \<Rightarrow>
          Inr \<lparr>row_id = None, email = e, date = date_obj,
               full_data = JDict [(''steps_data'', steps_data),
                                  (''user_summary'', py_or user_summary (JDict []))],
               total_steps = tot, hourly_data = steps_hourly steps_data\<rparr>)"

text \<open>The steps block with the commit that ends the sync: the record is handed to
  \<open>merge\<close>.\<close>

definition sync_steps ::
  "string \<Rightarrow> pydate \<Rightarrow> json \<Rightarrow> json \<Rightarrow> steps_row list \<Rightarrow> steps_row list \<times> (py_exn + unit)" where
  "sync_steps e date_obj steps_data user_summary tbl =
     (case sync_steps_record e date_obj steps_data user_summary of
        Inl ex \<Rightarrow> (tbl, Inl ex)
      | Inr steps_record \<Rightarrow> commit tbl (session_merge steps_record tbl))"

text \<open>The database part of \<open>get_steps\<close>: look up, then assign or add, then commit.\<close>

definition assign_steps :: "steps_row \<Rightarrow> steps_row \<Rightarrow> steps_row" where
  "assign_steps new existing_steps =
     existing_steps\<lparr>total_steps := total_steps new, hourly_data := hourly_data new,
                    full_data := full_data new\<rparr>"

definition get_steps_store ::
  "string \<Rightarrow> pydate \<Rightarrow> json \<Rightarrow> json \<Rightarrow> steps_row list \<Rightarrow> steps_row list \<times> (py_exn + unit)" where
  "get_steps_store e target_date steps_data user_summary tbl =
     (case steps_total user_summary of
        Inl ex \<Rightarrow> (tbl, Inl ex)
      | Inr tot \<Rightarrow>
          commit tbl
            (upsert assign_steps
               \<lparr>row_id = None, email = e, date = target_date,
                full_data = JDict [(''date'', JStr (isoformat target_date)),
                                   (''total_steps'', tot),
                                   (''hourly_data'', steps_hourly steps_data),
                                   (''user_summary'', py_or user_summary (JDict []))],
                total_steps = tot, hourly_data = steps_hourly steps_data\<rparr> tbl))"

definition summary_steps :: "int \<Rightarrow> json" where
  "summary_steps n = JDict [(''totalSteps'', JInt n)]"

subsection \<open>Heart rate\<close>

record heart_rate_row = row +
  resting_hr :: json
  average_hr :: json
  max_hr :: json
  min_hr :: json

text \<open>\<open>hr_data.get(k) if hr_data else None\<close>.\<close>

definition get_if :: "json \<Rightarrow> string \<Rightarrow> py_exn + json" where
  "get_if doc k = (if truthy doc then py_get doc k JNull else Inr JNull)"

text \<open>\<open>response_data\<close> of \<open>get_heartrate\<close>, as the instance the handler stores: the
  four columns are the four values resolved into the response, \<open>full_data\<close> is the
  response.\<close>

definition heartrate_record ::
  "string \<Rightarrow> pydate \<Rightarrow> json \<Rightarrow> json \<Rightarrow> py_exn + heart_rate_row" where
  "heartrate_record e target_date hr_data rhr_data =
     (case get_if hr_data ''restingHeartRate'' of Inl ex \<Rightarrow> Inl ex | Inr resting \<Rightarrow>
     (case get_if hr_data ''averageHeartRate'' of Inl ex \<Rightarrow> Inl ex | Inr average \<Rightarrow>
     (case get_if hr_data ''maxHeartRate'' of Inl ex \<Rightarrow> Inl ex | Inr maxi \<Rightarrow>
     (case get_if hr_data ''minHeartRate'' of Inl ex \<Rightarrow> Inl ex | Inr mini \<Rightarrow>
        Inr \<lparr>row_id = None, email = e, date = target_date,
             full_data = JDict [(''date'', JStr (isoformat target_date)),
                                (''heart_rate'', py_or hr_data (JDict [])),
                                (''resting_heart_rate'', py_or rhr_data (JDict [])),
                                (''resting_hr'', resting), (''average_hr'', average),
                                (''max_hr'', maxi), (''min_hr'', mini)],
             resting_hr = resting, average_hr = average, max_hr = maxi, min_hr = mini\<rparr>))))"

definition assign_heart_rate :: "heart_rate_row \<Rightarrow> heart_rate_row \<Rightarrow> heart_rate_row" where
  "assign_heart_rate new existing_hr =
     existing_hr\<lparr>resting_hr := resting_hr new, average_hr := average_hr new,
                 max_hr := max_hr new, min_hr := min_hr new, full_data := full_data new\<rparr>"

text \<open>The database part of \<open>get_heartrate\<close> (lines 416 to 440): look up, assign or
  add, commit; when the commit raises, the handler rolls back, which leaves the
  table as it was stored.\<close>

definition get_heartrate_store ::
  "(heart_rate_row list \<Rightarrow> heart_rate_row list \<Rightarrow> heart_rate_row list \<times> (py_exn + unit))
     \<Rightarrow> string \<Rightarrow> pydate \<Rightarrow> json \<Rightarrow> json \<Rightarrow> heart_rate_row list
     \<Rightarrow> heart_rate_row list \<times> (py_exn + unit)" where
  "get_heartrate_store db_commit e target_date hr_data rhr_data tbl =
     (case heartrate_record e target_date hr_data rhr_data of
        Inl ex \<Rightarrow> (tbl, Inl ex)
      | Inr new \<Rightarrow>
          (case db_commit tbl (upsert assign_heart_rate new tbl) of
             (stored', Inr u) \<Rightarrow> (stored', Inr ())
           | (stored', Inl db_error) \<Rightarrow> (tbl, Inl db_error)))"

subsection \<open>Health metrics\<close>

record health_metrics_row = row +
  vo2_max :: json
  fitness_age :: json
  hrv_value :: json
  training_readiness :: json
  training_status :: json
  intensity_minutes_cardio :: json
  intensity_minutes_anaerobic :: json
  hydration_ml :: json
  hydration_goal_ml :: json
  floors_climbed :: json
  average_spo2 :: json
  lowest_spo2 :: json
  average_respiration :: json
  lowest_respiration :: json

text \<open>The update path of the health-metrics block of the sync (lines 1588 to
  1615): the fourteen resolved values and the new \<open>full_data\<close> are assigned to the
  row found. \<open>new\<close> is the instance the create path would add, built from the same
  resolved values.\<close>

definition assign_health :: "health_metrics_row \<Rightarrow> health_metrics_row \<Rightarrow> health_metrics_row" where
  "assign_health new existing_health =
     existing_health\<lparr>vo2_max := vo2_max new,
       fitness_age := fitness_age new,
       hrv_value := hrv_value new,
       training_readiness := training_readiness new,
       training_status := training_status new,
       intensity_minutes_cardio := intensity_minutes_cardio new,
       intensity_minutes_anaerobic := intensity_minutes_anaerobic new,
       hydration_ml := hydration_ml new,
       hydration_goal_ml := hydration_goal_ml new,
       floors_climbed := floors_climbed new,
       average_spo2 := average_spo2 new,
       lowest_spo2 := lowest_spo2 new,
       average_respiration := average_respiration new,
       lowest_respiration := lowest_respiration new,
       full_data := full_data new\<rparr>"

text \<open>The health-metrics table as the session has it after the block: the row
  found has been assigned to, or the new instance has been added. The commit that
  ends the sync writes it.\<close>

definition sync_health_store ::
  "health_metrics_row \<Rightarrow> health_metrics_row list \<Rightarrow> health_metrics_row list" where
  "sync_health_store new tbl = upsert assign_health new tbl"

text \<open>The data columns of the two tables.\<close>

definition heart_rate_columns :: "(heart_rate_row \<Rightarrow> json) list" where
  "heart_rate_columns = [resting_hr, average_hr, max_hr, min_hr]"

definition health_columns :: "(health_metrics_row \<Rightarrow> json) list" where
  "health_columns =
     [vo2_max, fitness_age, hrv_value, training_readiness, training_status,
      intensity_minutes_cardio, intensity_minutes_anaerobic, hydration_ml, hydration_goal_ml,
      floors_climbed, average_spo2, lowest_spo2, average_respiration, lowest_respiration]"

subsection \<open>Concrete rows and payloads\<close>

definition stored_heart_rate :: heart_rate_row where
  "stored_heart_rate =
     \<lparr>row_id = Some 1, email = ''u@example.com'', date = day_2026_01_15,
      full_data = JDict [], resting_hr = JInt 52, average_hr = JInt 71,
      max_hr = JInt 150, min_hr = JInt 45\<rparr>"

definition partial_heart_rates :: json where
  "partial_heart_rates = JDict [(''maxHeartRate'', JInt 148), (''minHeartRate'', JInt 47)]"

definition stored_health :: health_metrics_row where
  "stored_health =
     \<lparr>row_id = Some 7, email = ''u@example.com'', date = day_2026_01_15,
      full_data = JDict [],
      vo2_max = JFloat (523 / 10), fitness_age = JInt 34, hrv_value = JInt 61,
      training_readiness = JInt 78, training_status = JStr ''PRODUCTIVE'',
      intensity_minutes_cardio = JInt 30, intensity_minutes_anaerobic = JInt 12,
      hydration_ml = JInt 1500, hydration_goal_ml = JInt 2500,
      floors_climbed = JInt 9, average_spo2 = JInt 96, lowest_spo2 = JInt 91,
      average_respiration = JInt 14, lowest_respiration = JInt 11\<rparr>"

definition resolved_health :: health_metrics_row where
  "resolved_health =
     \<lparr>row_id = None, email = ''u@example.com'', date = day_2026_01_15,
      full_data = JDict [(''max_metrics'', JDict [])],
      vo2_max = JNull, fitness_age = JNull, hrv_value = JNull,
      training_readiness = JNull, training_status = JNull,
      intensity_minutes_cardio = JInt 0, intensity_minutes_anaerobic = JInt 0,
      hydration_ml = JNull, hydration_goal_ml = JNull,
      floors_climbed = JNull, average_spo2 = JNull, lowest_spo2 = JNull,
      average_respiration = JNull, lowest_respiration = JNull\<rparr>"

definition hourly_steps :: json where
  "hourly_steps = JList [JDict [(''startGMT'', JStr ''2026-01-15T07:00:00.0''), (''steps'', JInt 412)]]"

definition synced_steps_row :: steps_row where
  "synced_steps_row =
     \<lparr>row_id = Some 1, email = ''u@example.com'', date = day_2026_01_15,
      full_data = JDict [(''steps_data'', hourly_steps), (''user_summary'', summary_steps 1000)],
      total_steps = JInt 1000, hourly_data = hourly_steps\<rparr>"

subsection \<open>Lookups after an update or an insert\<close>

lemma query_first_key:
  "query_first e d tbl = Some r \<Longrightarrow> email r = e \<and> date r = d"
  unfolding query_first_def by (auto simp: find_Some_iff same_key_def)

lemma keys_update_first:
  assumes "\<And>x. email (f x) = email x" and "\<And>x. date (f x) = date x"
  shows "map (\<lambda>r. (email r, date r)) (update_first P f tbl) = map (\<lambda>r. (email r, date r)) tbl"
  by (induction tbl) (simp_all add: assms)

lemma unique_update_first:
  assumes "\<And>x. email (f x) = email x" and "\<And>x. date (f x) = date x"
  shows "unique_user_date (update_first P f tbl) = unique_user_date tbl"
  unfolding unique_user_date_def by (simp add: keys_update_first [OF assms])

lemma upsert_existing:
  assumes q: "query_first (email new) (date new) tbl = Some existing"
      and k: "\<And>x. email (assign new x) = email x" "\<And>x. date (assign new x) = date x"
  shows "query_first (email new) (date new) (upsert assign new tbl) = Some (assign new existing)"
proof -
  have "upsert assign new tbl = update_first (same_key (email new) (date new)) (assign new) tbl"
    using q by (simp add: upsert_def)
  moreover have "query_first (email new) (date new)
      (update_first (same_key (email new) (date new)) (assign new) tbl) = Some (assign new existing)"
    by (rule query_update_first [OF q]) (simp add: same_key_def k)
  ultimately show ?thesis by simp
qed

lemma assign_heart_rate_eq:
  assumes "email existing = email new" and "date existing = date new"
  shows "assign_heart_rate new existing = new\<lparr>row_id := row_id existing\<rparr>"
  using assms by (cases existing, cases new) (simp add: assign_heart_rate_def)

lemma assign_health_eq:
  assumes "email existing = email new" and "date existing = date new"
  shows "assign_health new existing = new\<lparr>row_id := row_id existing\<rparr>"
  using assms by (cases existing, cases new) (simp add: assign_health_def)

lemma heartrate_record_key:
  "heartrate_record e d hr_data rhr_data = Inr new \<Longrightarrow> email new = e \<and> date new = d"
  by (auto simp: heartrate_record_def split: sum.splits)

lemma rows_for_unique:
  assumes "unique_user_date tbl" and "query_first e d tbl = Some r"
  shows "rows_for e d tbl = [r]"
  using assms unfolding unique_user_date_def query_first_def rows_for_def
proof (induction tbl)
  case Nil
  then show ?case by simp
next
  case (Cons x xs)
  show ?case
  proof (cases "same_key e d x")
    case True
    with Cons.prems have "x = r" and "(e, d) \<notin> set (map (\<lambda>r. (email r, date r)) xs)"
      by (auto simp: same_key_def)
    then have "filter (same_key e d) xs = []"
      by (auto simp: filter_empty_conv same_key_def image_iff)
    with True \<open>x = r\<close> show ?thesis by simp
  next
    case False
    with Cons show ?thesis by simp
  qed
qed

lemma query_first_None:
  "query_first e d tbl = None \<Longrightarrow> (e, d) \<notin> set (map (\<lambda>r. (email r, date r)) tbl)"
  unfolding query_first_def by (auto simp: find_None_iff same_key_def)

lemma unique_upsert:
  assumes "unique_user_date tbl"
      and "\<And>x. email (assign new x) = email x" "\<And>x. date (assign new x) = date x"
  shows "unique_user_date (upsert assign new tbl)"
proof (cases "query_first (email new) (date new) tbl")
  case None
  from query_first_None [OF None] assms(1) show ?thesis
    by (simp add: upsert_def None session_add_def unique_user_date_def)
next
  case (Some r)
  with assms show ?thesis
    by (simp add: upsert_def unique_update_first)
qed

lemma upsert_stores:
  assumes "\<And>x. email (assign new x) = email x" "\<And>x. date (assign new x) = date x"
  shows "\<exists>r. query_first (email new) (date new) (upsert assign new tbl) = Some r"
proof (cases "query_first (email new) (date new) tbl")
  case None
  then show ?thesis
    by (simp add: upsert_def query_session_add)
next
  case (Some r)
  from upsert_existing [where assign = assign and new = new, OF Some assms] show ?thesis by blast
qed

text \<open>Look up, then assign or add: applied twice for one key, it leaves exactly one
  row under the key, with the values of the second application.\<close>

lemma upsert_twice:
  assumes u: "unique_user_date tbl"
      and k1: "\<And>x. email (assign n1 x) = email x" "\<And>x. date (assign n1 x) = date x"
      and a2: "\<And>x. email x = email n2 \<Longrightarrow> date x = date n2
                 \<Longrightarrow> assign n2 x = n2\<lparr>row_id := row_id x\<rparr>"
      and k2: "\<And>x. email (assign n2 x) = email x" "\<And>x. date (assign n2 x) = date x"
      and same: "email n1 = email n2" "date n1 = date n2"
  shows "\<exists>i. rows_for (email n2) (date n2) (upsert assign n2 (upsert assign n1 tbl))
           = [n2\<lparr>row_id := i\<rparr>]"
proof -
  define tbl1 where "tbl1 = upsert assign n1 tbl"
  have u1: "unique_user_date tbl1"
    unfolding tbl1_def by (rule unique_upsert [where assign = assign and new = n1, OF u k1])
  from upsert_stores [where assign = assign and new = n1 and tbl = tbl, OF k1] obtain r1
    where q1: "query_first (email n2) (date n2) tbl1 = Some r1"
    unfolding tbl1_def same by blast
  have q2: "query_first (email n2) (date n2) (upsert assign n2 tbl1) = Some (assign n2 r1)"
    by (rule upsert_existing [where assign = assign and new = n2, OF q1 k2])
  have u2: "unique_user_date (upsert assign n2 tbl1)"
    by (rule unique_upsert [where assign = assign and new = n2, OF u1 k2])
  have "assign n2 r1 = n2\<lparr>row_id := row_id r1\<rparr>"
    using query_first_key [OF q1] by (intro a2) simp_all
  with rows_for_unique [OF u2 q2] show ?thesis
    unfolding tbl1_def by auto
qed

subsection \<open>The update path and absent fields\<close>

text \<open>
  Claim C1. As stated (a field that resolved as absent is left untouched on
  update) the claim fails: the update paths assign every resolved value,
  \<open>None\<close> included. With the row \<open>resting_hr = 52\<close> stored and a heart-rate
  document that has no \<open>restingHeartRate\<close>, \<open>get_heartrate\<close> resolves
  \<open>resting_hr = None\<close>, assigns it and commits, and the row's \<open>resting_hr\<close> is \<open>None\<close>.
  In the sync, with the health row \<open>vo2_max = 52.3\<close> stored and \<open>vo2_max\<close> resolved
  as absent, the row's \<open>vo2_max\<close> is assigned \<open>None\<close>.
\<close>

theorem absent_field_overwrites_counterexample:
  "resting_hr stored_heart_rate = JInt 52
   \<and> heartrate_record ''u@example.com'' day_2026_01_15 partial_heart_rates JNull
       = Inr \<lparr>row_id = None, email = ''u@example.com'', date = day_2026_01_15,
              full_data = JDict [(''date'', JStr ''2026-01-15''),
                                 (''heart_rate'', partial_heart_rates),
                                 (''resting_heart_rate'', JDict []),
                                 (''resting_hr'', JNull), (''average_hr'', JNull),
                                 (''max_hr'', JInt 148), (''min_hr'', JInt 47)],
              resting_hr = JNull, average_hr = JNull, max_hr = JInt 148, min_hr = JInt 47\<rparr>
   \<and> map resting_hr (fst (get_heartrate_store commit ''u@example.com'' day_2026_01_15
         partial_heart_rates JNull [stored_heart_rate])) = [JNull]
   \<and> vo2_max stored_health = JFloat (523 / 10)
   \<and> vo2_max resolved_health = JNull
   \<and> map vo2_max (fst (commit [stored_health] (sync_health_store resolved_health [stored_health])))
       = [JNull]"
  by (simp add: stored_heart_rate_def partial_heart_rates_def heartrate_record_def get_if_def
      get_heartrate_store_def upsert_def query_first_def same_key_def commit_def
      unique_user_date_def assign_heart_rate_def isoformat_def digit_def day_2026_01_15_def
      py_or_def stored_health_def resolved_health_def sync_health_store_def assign_health_def)

lemma upsert_update_path:
  assumes q: "query_first (email new) (date new) tbl = Some existing"
      and a: "\<And>r. same_key (email new) (date new) r \<Longrightarrow> assign new r = new\<lparr>row_id := row_id r\<rparr>"
  shows "upsert assign new tbl
           = update_first (same_key (email new) (date new)) (\<lambda>r. new\<lparr>row_id := row_id r\<rparr>) tbl"
    and "query_first (email new) (date new) (upsert assign new tbl)
           = Some (new\<lparr>row_id := row_id existing\<rparr>)"
proof -
  have upd: "update_first (same_key (email new) (date new)) (assign new) tbl
      = update_first (same_key (email new) (date new)) (\<lambda>r. new\<lparr>row_id := row_id r\<rparr>) tbl"
    by (induction tbl) (simp_all add: a)
  show u: "upsert assign new tbl
      = update_first (same_key (email new) (date new)) (\<lambda>r. new\<lparr>row_id := row_id r\<rparr>) tbl"
    using q upd by (simp add: upsert_def)
  have "query_first (email new) (date new)
      (update_first (same_key (email new) (date new)) (\<lambda>r. new\<lparr>row_id := row_id r\<rparr>) tbl)
      = Some (new\<lparr>row_id := row_id existing\<rparr>)"
    by (rule query_update_first_row [OF q]) (simp add: same_key_def)
  with u show "query_first (email new) (date new) (upsert assign new tbl)
      = Some (new\<lparr>row_id := row_id existing\<rparr>)"
    by simp
qed

lemma null_column_stored:
  assumes k: "keeps_column db_commit is_null col"
      and c: "db_commit stored session = (stored', Inr ())"
      and q: "query_first e d session = Some r"
      and n: "col r = JNull"
  shows "\<exists>w. query_first e d stored' = Some w \<and> col w = JNull"
proof -
  from n have "is_null (col r)" by simp
  with k c q obtain w where "query_first e d stored' = Some w" and "col w = col r"
    unfolding keeps_column_def by metis
  with n show ?thesis by simp
qed

text \<open>
  Claim C1, amended. On the update path every data field of the normalized record
  is assigned to the row found, absent values included; no field is tested for
  absence and none is left out, so the row the commit writes is the normalized
  record itself, carrying the \<open>id\<close> of the row that was there. This holds of
  \<open>get_heartrate\<close> and of the health-metrics block of the sync. When the commit
  succeeds, every field that resolved as absent is absent in the stored row,
  whatever was stored there before (the database is assumed to store \<open>None\<close> as
  \<open>NULL\<close>); when the commit of \<open>get_heartrate\<close> fails, the handler rolls back and the
  table is as it was stored. Only \<open>id\<close>, \<open>email\<close> and \<open>date\<close> are never assigned.
\<close>

theorem update_overwrites_every_field:
  "(heartrate_record e d hr_data rhr_data = Inr new \<and> query_first e d tbl = Some existing \<longrightarrow>
      query_first e d (update_first (same_key e d) (\<lambda>r. new\<lparr>row_id := row_id r\<rparr>) tbl)
        = Some (new\<lparr>row_id := row_id existing\<rparr>)
      \<and> get_heartrate_store db_commit e d hr_data rhr_data tbl
        = (case db_commit tbl (update_first (same_key e d) (\<lambda>r. new\<lparr>row_id := row_id r\<rparr>) tbl) of
             (stored', Inr u) \<Rightarrow> (stored', Inr ())
           | (stored', Inl db_error) \<Rightarrow> (tbl, Inl db_error))
      \<and> (\<forall>col \<in> set heart_rate_columns.
            keeps_column db_commit is_null col \<and> col new = JNull
              \<and> get_heartrate_store db_commit e d hr_data rhr_data tbl = (stored, Inr ())
            \<longrightarrow> (\<exists>w. query_first e d stored = Some w \<and> col w = JNull)))
   \<and> (query_first (email new') (date new') tbl' = Some existing' \<longrightarrow>
      sync_health_store new' tbl'
        = update_first (same_key (email new') (date new')) (\<lambda>r. new'\<lparr>row_id := row_id r\<rparr>) tbl'
      \<and> query_first (email new') (date new') (sync_health_store new' tbl')
        = Some (new'\<lparr>row_id := row_id existing'\<rparr>)
      \<and> (\<forall>col \<in> set health_columns.
            keeps_column health_commit is_null col \<and> col new' = JNull
              \<and> health_commit tbl' (sync_health_store new' tbl') = (stored_health', Inr ())
            \<longrightarrow> (\<exists>w. query_first (email new') (date new') stored_health' = Some w
                   \<and> col w = JNull)))"
proof (intro conjI impI ballI)
  assume q: "query_first (email new') (date new') tbl' = Some existing'"
  have a: "\<And>r. same_key (email new') (date new') r
      \<Longrightarrow> assign_health new' r = new'\<lparr>row_id := row_id r\<rparr>"
    by (intro assign_health_eq) (simp_all add: same_key_def)
  note u = upsert_update_path [where assign = assign_health, OF q a]
  show "sync_health_store new' tbl'
      = update_first (same_key (email new') (date new')) (\<lambda>r. new'\<lparr>row_id := row_id r\<rparr>) tbl'"
    using u(1) by (simp add: sync_health_store_def)
  show s: "query_first (email new') (date new') (sync_health_store new' tbl')
      = Some (new'\<lparr>row_id := row_id existing'\<rparr>)"
    using u(2) by (simp add: sync_health_store_def)
  fix col
  assume m: "col \<in> set health_columns"
    and h: "keeps_column health_commit is_null col \<and> col new' = JNull
      \<and> health_commit tbl' (sync_health_store new' tbl') = (stored_health', Inr ())"
  from m have "col (new'\<lparr>row_id := row_id existing'\<rparr>) = col new'"
    by (auto simp: health_columns_def)
  with h have n: "col (new'\<lparr>row_id := row_id existing'\<rparr>) = JNull"
    by simp
  from h have kc: "keeps_column health_commit is_null col"
    and c: "health_commit tbl' (sync_health_store new' tbl') = (stored_health', Inr ())"
    by simp_all
  show "\<exists>w. query_first (email new') (date new') stored_health' = Some w \<and> col w = JNull"
    by (rule null_column_stored [where col = col, OF kc c s n])
next
  assume a: "heartrate_record e d hr_data rhr_data = Inr new \<and> query_first e d tbl = Some existing"
  then have n: "heartrate_record e d hr_data rhr_data = Inr new"
    and q: "query_first e d tbl = Some existing"
    by simp_all
  from heartrate_record_key [OF n] have k: "email new = e" "date new = d"
    by simp_all
  have same: "\<And>r. same_key (email new) (date new) r
      \<Longrightarrow> assign_heart_rate new r = new\<lparr>row_id := row_id r\<rparr>"
    by (intro assign_heart_rate_eq) (simp_all add: same_key_def)
  note u = upsert_update_path [where assign = assign_heart_rate and new = new,
      unfolded k, OF q same [unfolded k]]
  show s: "query_first e d (update_first (same_key e d) (\<lambda>r. new\<lparr>row_id := row_id r\<rparr>) tbl)
        = Some (new\<lparr>row_id := row_id existing\<rparr>)"
    using u by simp
  show g: "get_heartrate_store db_commit e d hr_data rhr_data tbl
        = (case db_commit tbl (update_first (same_key e d) (\<lambda>r. new\<lparr>row_id := row_id r\<rparr>) tbl) of
             (stored', Inr u) \<Rightarrow> (stored', Inr ())
           | (stored', Inl db_error) \<Rightarrow> (tbl, Inl db_error))"
    using n u(1) by (simp add: get_heartrate_store_def)
  fix col
  assume m: "col \<in> set heart_rate_columns"
    and h: "keeps_column db_commit is_null col \<and> col new = JNull
      \<and> get_heartrate_store db_commit e d hr_data rhr_data tbl = (stored, Inr ())"
  from m have "col (new\<lparr>row_id := row_id existing\<rparr>) = col new"
    by (auto simp: heart_rate_columns_def)
  with h have nn: "col (new\<lparr>row_id := row_id existing\<rparr>) = JNull"
    by simp
  from h g have c: "db_commit tbl (update_first (same_key e d) (\<lambda>r. new\<lparr>row_id := row_id r\<rparr>) tbl)
      = (stored, Inr ())"
    by (auto split: prod.splits sum.splits)
  from h have kc: "keeps_column db_commit is_null col"
    by simp
  show "\<exists>w. query_first e d stored = Some w \<and> col w = JNull"
    by (rule null_column_stored [where col = col, OF kc c s nn])
qed

theorem update_overwrites_every_field_witness:
  "heartrate_record ''u@example.com'' day_2026_01_15 partial_heart_rates JNull
       = Inr \<lparr>row_id = None, email = ''u@example.com'', date = day_2026_01_15,
              full_data = JDict [(''date'', JStr ''2026-01-15''),
                                 (''heart_rate'', partial_heart_rates),
                                 (''resting_heart_rate'', JDict []),
                                 (''resting_hr'', JNull), (''average_hr'', JNull),
                                 (''max_hr'', JInt 148), (''min_hr'', JInt 47)],
              resting_hr = JNull, average_hr = JNull, max_hr = JInt 148, min_hr = JInt 47\<rparr>
   \<and> query_first ''u@example.com'' day_2026_01_15 [stored_heart_rate] = Some stored_heart_rate
   \<and> get_heartrate_store commit ''u@example.com'' day_2026_01_15 partial_heart_rates JNull
        [stored_heart_rate]
       = ([\<lparr>row_id = Some 1, email = ''u@example.com'', date = day_2026_01_15,
              full_data = JDict [(''date'', JStr ''2026-01-15''),
                                 (''heart_rate'', partial_heart_rates),
                                 (''resting_heart_rate'', JDict []),
                                 (''resting_hr'', JNull), (''average_hr'', JNull),
                                 (''max_hr'', JInt 148), (''min_hr'', JInt 47)],
              resting_hr = JNull, average_hr = JNull, max_hr = JInt 148, min_hr = JInt 47\<rparr>],
          Inr ())
   \<and> (\<exists>w. query_first ''u@example.com'' day_2026_01_15
             (fst (get_heartrate_store commit ''u@example.com'' day_2026_01_15
                     partial_heart_rates JNull [stored_heart_rate])) = Some w
          \<and> resting_hr w = JNull)
   \<and> query_first ''u@example.com'' day_2026_01_15 [stored_health] = Some stored_health
   \<and> query_first ''u@example.com'' day_2026_01_15
        (sync_health_store resolved_health [stored_health])
       = Some (resolved_health\<lparr>row_id := Some 7\<rparr>)"
proof -
  let ?new = "\<lparr>row_id = None, email = ''u@example.com'', date = day_2026_01_15,
              full_data = JDict [(''date'', JStr ''2026-01-15''),
                                 (''heart_rate'', partial_heart_rates),
                                 (''resting_heart_rate'', JDict []),
                                 (''resting_hr'', JNull), (''average_hr'', JNull),
                                 (''max_hr'', JInt 148), (''min_hr'', JInt 47)],
              resting_hr = JNull, average_hr = JNull, max_hr = JInt 148, min_hr = JInt 47\<rparr>"
  have n: "heartrate_record ''u@example.com'' day_2026_01_15 partial_heart_rates JNull = Inr ?new"
    by (simp add: partial_heart_rates_def heartrate_record_def get_if_def isoformat_def
        digit_def day_2026_01_15_def py_or_def)
  have q: "query_first ''u@example.com'' day_2026_01_15 [stored_heart_rate] = Some stored_heart_rate"
    by (simp add: query_first_def same_key_def stored_heart_rate_def)
  note t = update_overwrites_every_field [where db_commit = commit and stored =
      "[?new\<lparr>row_id := Some 1\<rparr>]", THEN conjunct1, rule_format, OF conjI [OF n q]]
  have r: "row_id stored_heart_rate = Some 1"
    by (simp add: stored_heart_rate_def)
  have g: "get_heartrate_store commit ''u@example.com'' day_2026_01_15 partial_heart_rates JNull
        [stored_heart_rate] = ([?new\<lparr>row_id := Some 1\<rparr>], Inr ())"
    using t [THEN conjunct2, THEN conjunct1]
    by (simp add: stored_heart_rate_def same_key_def commit_def unique_user_date_def)
  have m: "resting_hr \<in> set heart_rate_columns"
    by (simp add: heart_rate_columns_def)
  have kc: "keeps_column commit is_null resting_hr"
    by (rule commit_keeps_column)
  have w: "\<exists>w. query_first ''u@example.com'' day_2026_01_15 [?new\<lparr>row_id := Some 1\<rparr>] = Some w
      \<and> resting_hr w = JNull"
    by (rule t [THEN conjunct2, THEN conjunct2, rule_format, OF m]) (simp add: kc g)
  have k: "email resolved_health = ''u@example.com''" "date resolved_health = day_2026_01_15"
    by (simp_all add: resolved_health_def)
  have q': "query_first (email resolved_health) (date resolved_health) [stored_health]
      = Some stored_health"
    by (simp add: query_first_def same_key_def stored_health_def resolved_health_def)
  note t' = update_overwrites_every_field [THEN conjunct2, rule_format, OF q']
  have r': "row_id stored_health = Some 7"
    by (simp add: stored_health_def)
  from n q g w t' [THEN conjunct2, THEN conjunct1] q' r' show ?thesis
    by (simp add: k)
qed

subsection \<open>Applying an upsert twice\<close>

text \<open>
  Claim C2. The claim holds of every handler that looks the row up before it
  writes (\<open>upsert_twice\<close>; \<open>get_steps\<close> is one of them), and the code breaks it in
  the steps block of the sync, which the claim is read from (the heart-rate
  block of the sync is written the same way). There the instance is built
  without an \<open>id\<close> and given to \<open>db.session.merge\<close>, which reconciles on the primary
  key only and therefore inserts a second row for the key; the constraint
  \<open>unique_user_date_steps\<close> rejects it, the commit fails and the handler rolls
  back. Syncing 2026-01-15 once stores the row; syncing it again with 2000
  steps fails and leaves the row of the first sync, with 1000 steps. The same
  two applications through \<open>get_steps\<close> leave one row with 2000 steps.
\<close>

theorem sync_steps_second_application_fails:
  "sync_steps ''u@example.com'' day_2026_01_15 hourly_steps (summary_steps 1000) []
     = ([synced_steps_row], Inr ())
   \<and> sync_steps ''u@example.com'' day_2026_01_15 hourly_steps (summary_steps 2000)
       [synced_steps_row]
     = ([synced_steps_row], Inl IntegrityError)
   \<and> total_steps synced_steps_row = JInt 1000
   \<and> map total_steps
       (fst (get_steps_store ''u@example.com'' day_2026_01_15 hourly_steps (summary_steps 2000)
          (fst (get_steps_store ''u@example.com'' day_2026_01_15 hourly_steps
             (summary_steps 1000) []))))
     = [JInt 2000]"
  by (simp add: sync_steps_def sync_steps_record_def get_steps_store_def steps_total_def
      steps_hourly_def
      summary_steps_def hourly_steps_def synced_steps_row_def session_merge_def
      session_add_def next_id_def commit_def unique_user_date_def upsert_def query_first_def
      same_key_def assign_steps_def py_or_def)

section \<open>Monthly running goal (\<open>get_live_data\<close>)\<close>





































section \<open>Reading stored data (\<open>get_db_data\<close>)\<close>

text \<open>The remaining three models of \<open>database.py\<close>. Where a column has the name of
  a field declared above, the record field carries a prefix; \<open>to_dict\<close> below
  shows the column names.\<close>

record stress_row = row +
  col_rest_minutes :: json
  col_low_stress_minutes :: json
  col_medium_stress_minutes :: json
  col_high_stress_minutes :: json
  col_average_stress :: json
  col_max_stress :: json

record body_battery_row = row +
  charged :: json
  drained :: json

record activity_row = row +
  activity_id :: string
  activity_name :: json
  activity_type :: json
  start_time :: json
  duration_seconds :: json
  distance_meters :: json
  calories :: json
  act_average_hr :: json
  act_max_hr :: json
  average_speed :: json
  max_speed :: json
  elevation_gain :: json
  average_cadence :: json

text \<open>The seven tables.\<close>

record database =
  steps_data :: "steps_row list"
  heart_rate_data :: "heart_rate_row list"
  sleep_data :: "sleep_row list"
  stress_data :: "stress_row list"
  body_battery_data :: "body_battery_row list"
  activity_data :: "activity_row list"
  health_metrics_data :: "health_metrics_row list"

text \<open>\<open>to_dict\<close> of each model, without the two timestamp columns. The keys common
  to all models come first.\<close>

definition key_items :: "'a row_scheme \<Rightarrow> (string \<times> json) list" where
  "key_items r =
     [(''id'', case row_id r of None \<Rightarrow> JNull | Some i \<Rightarrow> JInt (int i)),
      (''email'', JStr (email r)),
      (''date'', JStr (isoformat (date r)))]"

definition steps_to_dict :: "steps_row \<Rightarrow> json" where
  "steps_to_dict r = JDict (key_items r @
     [(''total_steps'', total_steps r), (''hourly_data'', hourly_data r),
      (''full_data'', full_data r)])"

definition heart_rate_to_dict :: "heart_rate_row \<Rightarrow> json" where
  "heart_rate_to_dict r = JDict (key_items r @
     [(''resting_hr'', resting_hr r), (''average_hr'', average_hr r),
      (''max_hr'', max_hr r), (''min_hr'', min_hr r), (''full_data'', full_data r)])"

definition sleep_to_dict :: "sleep_row \<Rightarrow> json" where
  "sleep_to_dict r = JDict (key_items r @
     [(''sleep_score'', sleep_score r),
      (''sleep_duration_seconds'', sleep_duration_seconds r),
      (''sleep_duration_minutes'', sleep_duration_minutes r),
      (''deep_sleep_seconds'', deep_sleep_seconds r),
      (''light_sleep_seconds'', light_sleep_seconds r),
      (''rem_sleep_seconds'', rem_sleep_seconds r),
      (''awake_seconds'', awake_seconds r),
      (''full_data'', full_data r)])"

definition stress_to_dict :: "stress_row \<Rightarrow> json" where
  "stress_to_dict r = JDict (key_items r @
     [(''rest_minutes'', col_rest_minutes r),
      (''low_stress_minutes'', col_low_stress_minutes r),
      (''medium_stress_minutes'', col_medium_stress_minutes r),
      (''high_stress_minutes'', col_high_stress_minutes r),
      (''average_stress'', col_average_stress r),
      (''max_stress'', col_max_stress r),
      (''full_data'', full_data r)])"

definition body_battery_to_dict :: "body_battery_row \<Rightarrow> json" where
  "body_battery_to_dict r = JDict (key_items r @
     [(''charged'', charged r), (''drained'', drained r), (''full_data'', full_data r)])"

definition activity_to_dict :: "activity_row \<Rightarrow> json" where
  "activity_to_dict r = JDict
     ([(''id'', case row_id r of None \<Rightarrow> JNull | Some i \<Rightarrow> JInt (int i)),
       (''email'', JStr (email r)),
       (''activity_id'', JStr (activity_id r)),
       (''date'', JStr (isoformat (date r))),
       (''activity_name'', activity_name r),
       (''activity_type'', activity_type r),
       (''start_time'', start_time r),
       (''duration_seconds'', duration_seconds r),
       (''distance_meters'', distance_meters r),
       (''calories'', calories r),
       (''average_hr'', act_average_hr r),
       (''max_hr'', act_max_hr r),
       (''average_speed'', average_speed r),
       (''max_speed'', max_speed r),
       (''elevation_gain'', elevation_gain r),
       (''average_cadence'', average_cadence r),
       (''full_data'', full_data r)])"

definition health_metrics_to_dict :: "health_metrics_row \<Rightarrow> json" where
  "health_metrics_to_dict r = JDict (key_items r @
     [(''vo2_max'', vo2_max r), (''fitness_age'', fitness_age r),
      (''hrv_value'', hrv_value r),
      (''training_readiness'', training_readiness r),
      (''training_status'', training_status r),
      (''intensity_minutes_cardio'', intensity_minutes_cardio r),
      (''intensity_minutes_anaerobic'', intensity_minutes_anaerobic r),
      (''hydration_ml'', hydration_ml r),
      (''hydration_goal_ml'', hydration_goal_ml r),
      (''floors_climbed'', floors_climbed r),
      (''average_spo2'', average_spo2 r), (''lowest_spo2'', lowest_spo2 r),
      (''average_respiration'', average_respiration r),
      (''lowest_respiration'', lowest_respiration r),
      (''full_data'', full_data r)])"

text \<open>\<open>data_type_map.get(data_type.lower())\<close>. \<open>lower\<close> changes the ASCII capitals; no
  other character becomes a letter of the seven keys.\<close>

datatype model =
    StepsData | HeartRateData | SleepData | StressData
  | BodyBatteryData | ActivityData | HealthMetricsData

definition lower_char :: "char \<Rightarrow> char" where
  "lower_char c =
     (case map_of (zip ''ABCDEFGHIJKLMNOPQRSTUVWXYZ'' ''abcdefghijklmnopqrstuvwxyz'') c of
        None \<Rightarrow> c | Some l \<Rightarrow> l)"

definition lower :: "string \<Rightarrow> string" where
  "lower s = map lower_char s"

definition data_type_map :: "string \<Rightarrow> model option" where
  "data_type_map =
     map_of [(''steps'', StepsData), (''heartrate'', HeartRateData), (''sleep'', SleepData),
             (''stress'', StressData), (''bodybattery'', BodyBatteryData),
             (''activities'', ActivityData), (''healthmetrics'', HealthMetricsData)]"

text \<open>\<open>record.to_dict() if record else None\<close> of the first row under the key.\<close>

definition first_dict ::
  "('a row_scheme \<Rightarrow> json) \<Rightarrow> string \<Rightarrow> pydate \<Rightarrow> 'a row_scheme list \<Rightarrow> json" where
  "first_dict to_dict e d tbl =
     (case query_first e d tbl of None \<Rightarrow> JNull | Some r \<Rightarrow> to_dict r)"

text \<open>The value of \<open>data\<close>: for activities the list of all rows of the day (\<open>None\<close>
  when there is none), for the other models the first row (\<open>None\<close> when there is
  none). Only \<open>ActivityData\<close> is mapped from \<open>'activities'\<close>.\<close>

fun query_data :: "model \<Rightarrow> string \<Rightarrow> pydate \<Rightarrow> database \<Rightarrow> json" where
  "query_data ActivityData e d db =
     (if rows_for e d (activity_data db) = [] then JNull
      else JList (map activity_to_dict (rows_for e d (activity_data db))))"
| "query_data StepsData e d db = first_dict steps_to_dict e d (steps_data db)"
| "query_data HeartRateData e d db = first_dict heart_rate_to_dict e d (heart_rate_data db)"
| "query_data SleepData e d db = first_dict sleep_to_dict e d (sleep_data db)"
| "query_data StressData e d db = first_dict stress_to_dict e d (stress_data db)"
| "query_data BodyBatteryData e d db =
     first_dict body_battery_to_dict e d (body_battery_data db)"
| "query_data HealthMetricsData e d db =
     first_dict health_metrics_to_dict e d (health_metrics_data db)"

text \<open>A request as the handlers see it: the headers and the query parameters.
  \<open>request.args.get(k)\<close> and \<open>request.headers.get(k)\<close> give the first value.\<close>

record request =
  headers :: "(string \<times> string) list"
  args :: "(string \<times> string) list"

record response =
  status_code :: nat
  body :: json

definition jsonify :: "json \<Rightarrow> nat \<Rightarrow> response" where
  "jsonify j code = \<lparr>status_code = code, body = j\<rparr>"

text \<open>The handler. It is registered with \<open>@app.route\<close> alone, without \<open>@require_auth\<close>
  or \<open>@require_dashboard_auth\<close>. \<open>strptime\<close> stands for
  \<open>datetime.strptime(date_str, '%Y-%m-%d').date()\<close>, \<open>None\<close> for its \<open>ValueError\<close>.\<close>

definition get_db_data ::
  "(string \<Rightarrow> pydate option) \<Rightarrow> string \<Rightarrow> request \<Rightarrow> database \<Rightarrow> response" where
  "get_db_data strptime data_type req db =
     (case map_of (args req) ''email'' of
        None \<Rightarrow> jsonify (JDict [(''error'', JStr ''Missing email parameter'')]) 400
      | Some e \<Rightarrow>
     (if e = [] then jsonify (JDict [(''error'', JStr ''Missing email parameter'')]) 400
      else
     (case map_of (args req) ''date'' of
        None \<Rightarrow> jsonify (JDict [(''error'', JStr ''Missing date parameter'')]) 400
      | Some date_str \<Rightarrow>
     (if date_str = [] then jsonify (JDict [(''error'', JStr ''Missing date parameter'')]) 400
      else
     (case strptime date_str of
        None \<Rightarrow> jsonify (JDict [(''error'', JStr ''Invalid date format. Use YYYY-MM-DD'')]) 400
      | Some date_obj \<Rightarrow>
     (case data_type_map (lower data_type) of
        None \<Rightarrow> jsonify (JDict [(''error'', JStr (''Unknown data type: '' @ data_type))]) 400
      | Some m \<Rightarrow>
     (let data = query_data m e date_obj db
      in if \<not> truthy data
         then jsonify (JDict [(''error'', JStr ''No data found''),
                              (''message'', JStr (''No '' @ data_type @ '' data found for ''
                                                  @ e @ '' on '' @ date_str))]) 404
         else jsonify (JDict [(''date'', JStr date_str), (''email'', JStr e),
                              (''data_type'', JStr data_type), (''data'', data),
                              (''source'', JStr ''database'')]) 200)))))))"

text \<open>A parser that knows one day, a table with a row of somebody else, and a
  request that carries no header at all.\<close>

definition strptime_one :: "string \<Rightarrow> pydate option" where
  "strptime_one s = (if s = ''2026-01-15'' then Some day_2026_01_15 else None)"

definition someones_db :: database where
  "someones_db =
     \<lparr>steps_data = [synced_steps_row], heart_rate_data = [stored_heart_rate],
      sleep_data = [], stress_data = [], body_battery_data = [], activity_data = [],
      health_metrics_data = [stored_health]\<rparr>"

definition anonymous_request :: request where
  "anonymous_request =
     \<lparr>headers = [], args = [(''email'', ''u@example.com''), (''date'', ''2026-01-15'')]\<rparr>"

text \<open>
  Claim C10. The single-date read endpoint checks no credential: whatever headers
  a request carries, the response is the one the same query parameters give
  without them. With a data type of the map, a non-empty \<open>email\<close>, a \<open>date\<close> that
  parses and data stored under that email and date, the response is 200 and
  carries the stored record of that user (for activities, all records of the
  day), so it is determined by the query parameters and the stored rows alone.
\<close>

theorem db_read_ignores_credentials:
  "get_db_data strptime data_type (req\<lparr>headers := h\<rparr>) db = get_db_data strptime data_type req db
   \<and> (map_of (args req) ''email'' = Some e \<and> e \<noteq> [] \<and> map_of (args req) ''date'' = Some date_str
        \<and> date_str \<noteq> [] \<and> strptime date_str = Some d
        \<and> data_type_map (lower data_type) = Some m \<and> truthy (query_data m e d db) \<longrightarrow>
      get_db_data strptime data_type (req\<lparr>headers := h\<rparr>) db =
        jsonify (JDict [(''date'', JStr date_str), (''email'', JStr e),
                        (''data_type'', JStr data_type), (''data'', query_data m e d db),
                        (''source'', JStr ''database'')]) 200)"
  by (simp add: get_db_data_def cong: option.case_cong if_cong)

theorem db_read_ignores_credentials_witness:
  "get_db_data strptime_one ''HeartRate''
       (anonymous_request\<lparr>headers := [(''X-Email'', ''intruder@example.com'')]\<rparr>) someones_db
     = jsonify (JDict [(''date'', JStr ''2026-01-15''), (''email'', JStr ''u@example.com''),
                       (''data_type'', JStr ''HeartRate''),
                       (''data'', heart_rate_to_dict stored_heart_rate),
                       (''source'', JStr ''database'')]) 200
   \<and> get_db_data strptime_one ''HeartRate'' anonymous_request someones_db
     = jsonify (JDict [(''date'', JStr ''2026-01-15''), (''email'', JStr ''u@example.com''),
                       (''data_type'', JStr ''HeartRate''),
                       (''data'', heart_rate_to_dict stored_heart_rate),
                       (''source'', JStr ''database'')]) 200"
proof -
  have l: "data_type_map (lower ''HeartRate'') = Some HeartRateData"
    by (simp add: data_type_map_def lower_def lower_char_def)
  have q: "query_data HeartRateData ''u@example.com'' day_2026_01_15 someones_db
      = heart_rate_to_dict stored_heart_rate"
    by (simp add: first_dict_def query_first_def same_key_def someones_db_def
        stored_heart_rate_def)
  have t: "truthy (query_data HeartRateData ''u@example.com'' day_2026_01_15 someones_db)"
    unfolding q by (simp add: heart_rate_to_dict_def key_items_def)
  note inst = db_read_ignores_credentials [where strptime = strptime_one
      and data_type = "''HeartRate''" and req = anonymous_request
      and h = "[(''X-Email'', ''intruder@example.com'')]" and db = someones_db
      and e = "''u@example.com''" and date_str = "''2026-01-15''" and d = day_2026_01_15
      and m = HeartRateData]
  have hyp: "map_of (args anonymous_request) ''email'' = Some ''u@example.com''
      \<and> ''u@example.com'' \<noteq> [] \<and> map_of (args anonymous_request) ''date'' = Some ''2026-01-15''
      \<and> ''2026-01-15'' \<noteq> [] \<and> strptime_one ''2026-01-15'' = Some day_2026_01_15
      \<and> data_type_map (lower ''HeartRate'') = Some HeartRateData
      \<and> truthy (query_data HeartRateData ''u@example.com'' day_2026_01_15 someones_db)"
    using l t by (simp add: anonymous_request_def strptime_one_def)
  from inst [THEN conjunct2, rule_format, OF hyp] inst [THEN conjunct1]
  show ?thesis
    unfolding q by metis
qed

section \<open>The sync of one day (\<open>sync_date_to_database\<close>)\<close>









subsection \<open>The heart-rate block\<close>








subsection \<open>The steps and sleep blocks on the seven tables\<close>











subsection \<open>A failing heart-rate fetch\<close>






end
